theory Spec2Isabelle
  imports Main "HOL-Library.Char_ord" "HOL-Library.List_Lexorder" "HOL-Library.AList"
begin

section \<open>Platform values shared by all modules\<close>

text \<open>
  A JavaScript string is modelled as a \<^typ>\<open>string\<close>, one \<^typ>\<open>char\<close> per code unit
  (code units above 255 are not represented). An exception is a value of
  type \<open>error\<close>: \<open>Error m\<close> is \<open>throw new Error(m)\<close>, \<open>TypeError m\<close> is the
  engine's own failure when a property of \<open>undefined\<close> is read or a value cannot
  be serialised.
\<close>

datatype error = Error string | TypeError string

definition backtick :: char where
  "backtick = CHR 0x60"

definition quote :: char where
  "quote = CHR 0x27"

definition dquote :: char where
  "dquote = CHR 0x22"

definition newline :: char where
  "newline = CHR 0x0A"

text \<open>The template fragment \<open>`\<dots>`\<close> of the SQL text: a name between two backticks.\<close>

definition bq :: "string \<Rightarrow> string" where
  "bq s = backtick # s @ [backtick]"

text \<open>\<open>Array.prototype.join\<close> on an array of strings.\<close>

fun join :: "string \<Rightarrow> string list \<Rightarrow> string" where
  "join sep [] = []"
| "join sep [x] = x"
| "join sep (x # y # ys) = x @ sep @ join sep (y # ys)"

text \<open>\<open>Set.prototype.add\<close> on an insertion-ordered set kept as a list.\<close>

definition set_add :: "'a \<Rightarrow> 'a list \<Rightarrow> 'a list" where
  "set_add x xs = (if x \<in> set xs then xs else xs @ [x])"

text \<open>
  \<open>encodeURIComponent\<close>, a builtin of the platform, on the code units the model has:
  the unreserved characters stand for themselves, every other code unit is written as
  the percent-escaped bytes of its UTF-8 encoding.
\<close>

definition hexDigit :: "nat \<Rightarrow> char" where
  "hexDigit n = (if n < 10 then char_of (48 + n) else char_of (55 + n))"

definition percentByte :: "nat \<Rightarrow> string" where
  "percentByte b = [CHR ''%'', hexDigit (b div 16), hexDigit (b mod 16)]"

definition uriUnreserved :: "char \<Rightarrow> bool" where
  "uriUnreserved c =
     (let n = (of_char c :: nat)
      in (65 \<le> n \<and> n \<le> 90) \<or> (97 \<le> n \<and> n \<le> 122) \<or> (48 \<le> n \<and> n \<le> 57)
         \<or> c \<in> set ''-_.!~*()'' \<or> c = quote)"

definition encodeUnit :: "char \<Rightarrow> string" where
  "encodeUnit c =
     (let n = (of_char c :: nat)
      in if uriUnreserved c then [c]
         else if n < 128 then percentByte n
         else percentByte (192 + n div 64) @ percentByte (128 + n mod 64))"

definition encodeURIComponent :: "string \<Rightarrow> string" where
  "encodeURIComponent s = concat (map encodeUnit s)"

section \<open>The schema model (src/definitions.ts)\<close>

datatype ColumnType = INTEGER | TEXT | REAL | BLOB | NULL | Unrecognized

datatype ForeignKeyAction = NO_ACTION | RESTRICT | SET_NULL | SET_DEFAULT | CASCADE

text \<open>The text a template literal interpolates for a column type or an action.\<close>

fun columnTypeText :: "ColumnType \<Rightarrow> string" where
  "columnTypeText INTEGER = ''INTEGER''"
| "columnTypeText TEXT = ''TEXT''"
| "columnTypeText REAL = ''REAL''"
| "columnTypeText BLOB = ''BLOB''"
| "columnTypeText NULL = ''NULL''"
| "columnTypeText Unrecognized = ''''"

fun actionText :: "ForeignKeyAction \<Rightarrow> string" where
  "actionText NO_ACTION = ''NO ACTION''"
| "actionText RESTRICT = ''RESTRICT''"
| "actionText SET_NULL = ''SET NULL''"
| "actionText SET_DEFAULT = ''SET DEFAULT''"
| "actionText CASCADE = ''CASCADE''"

text \<open>
  The object graph is modelled by value. Every element stored in a table's collections
  is mounted on that table (the factory operations of the model establish this link),
  so the back-reference \<open>ownerTable\<close> is not a field: where the code reads
  \<open>x.ownerTable.name\<close> the model carries the name of the table the element was taken
  from. A \<open>Map\<close> is a list in insertion order whose key is the element's name.
\<close>

record Column =
  col_name :: string
  col_type :: ColumnType
  col_notNull :: bool
  col_defaultValue :: "string option"
  col_autoIncrement :: bool

text \<open>The constructor of \<open>Column\<close>: the default \<open>'NULL'\<close> is stored as \<open>null\<close>.\<close>

definition newColumn :: "string \<Rightarrow> ColumnType \<Rightarrow> bool \<Rightarrow> string option \<Rightarrow> bool \<Rightarrow> Column" where
  "newColumn n t nn d ai =
     \<lparr>col_name = n, col_type = t, col_notNull = nn,
      col_defaultValue = (if d = Some ''NULL'' then None else d),
      col_autoIncrement = ai\<rparr>"

record Index =
  idx_name :: string
  idx_unique :: bool
  idx_columns :: "Column list"

record Unique =
  unq_columns :: "Column list"

text \<open>
  A foreign key names its target table; of the target \<open>Table\<close> object the code reads
  only the name and the identity.
\<close>

record ForeignKey =
  fk_foreignTable :: string
  fk_foreignColumns :: "Column list"
  fk_localColumns :: "Column list"
  fk_onUpdate :: ForeignKeyAction
  fk_onDelete :: ForeignKeyAction

text \<open>
  \<open>primaryKey\<close> is a JavaScript array that may have holes: slot \<open>i\<close> is \<open>None\<close>
  where nothing was assigned.
\<close>

record Table =
  tbl_name :: string
  tbl_columns :: "Column list"
  tbl_primaryKey :: "Column option list"
  tbl_foreignKeys :: "ForeignKey list"
  tbl_uniques :: "Unique list"
  tbl_indexes :: "Index list"

record Definitions =
  defs_tables :: "Table list"

text \<open>\<open>columns.has(name)\<close> and \<open>columns.get(name)\<close>.\<close>

definition hasColumn :: "Table \<Rightarrow> string \<Rightarrow> bool" where
  "hasColumn t n = (n \<in> set (map col_name (tbl_columns t)))"

definition getColumnOpt :: "Table \<Rightarrow> string \<Rightarrow> Column option" where
  "getColumnOpt t n = find (\<lambda>c. col_name c = n) (tbl_columns t)"

text \<open>\<open>tables.has(name)\<close> and \<open>tables.get(name)\<close>.\<close>

definition hasTable :: "Definitions \<Rightarrow> string \<Rightarrow> bool" where
  "hasTable d n = (n \<in> set (map tbl_name (defs_tables d)))"

definition getTableOpt :: "Definitions \<Rightarrow> string \<Rightarrow> Table option" where
  "getTableOpt d n = find (\<lambda>t. tbl_name t = n) (defs_tables d)"

text \<open>\<open>Definitions.getTable\<close>: the lookup that throws.\<close>

definition getTable :: "Definitions \<Rightarrow> string \<Rightarrow> error + Table" where
  "getTable d n =
     (case getTableOpt d n of
        None \<Rightarrow> Inl (Error (''Table not found: '' @ n))
      | Some t \<Rightarrow> Inr t)"


text \<open>\<open>Table.verifyPrimaryKey\<close>: the loop over the slots, holes included.\<close>

fun verifyPrimaryKeySlots :: "Table \<Rightarrow> Column option list \<Rightarrow> error + unit" where
  "verifyPrimaryKeySlots t [] = Inr ()"
| "verifyPrimaryKeySlots t (None # rest) = Inl (Error ''Primary key column is undefined'')"
| "verifyPrimaryKeySlots t (Some column # rest) =
     (if \<not> hasColumn t (col_name column)
      then Inl (Error ''Primary key column must belong to the table'')
      else verifyPrimaryKeySlots t rest)"

definition verifyPrimaryKey :: "Table \<Rightarrow> error + unit" where
  "verifyPrimaryKey t = verifyPrimaryKeySlots t (tbl_primaryKey t)"

text \<open>
  \<open>ForeignKey.verify\<close> for a key mounted on table \<open>t\<close>. A column is owned by \<open>t\<close>
  exactly when it is one of \<open>t\<close>'s columns; the target columns are stored with the
  key, so their ownership by the target table has no counterpart in the model.
\<close>

definition verifyForeignKey :: "Table \<Rightarrow> ForeignKey \<Rightarrow> error + unit" where
  "verifyForeignKey t fk =
     (if fk_foreignTable fk = tbl_name t then
        Inl (Error ''Foreign table must not be the same as the local table'')
      else if length (fk_foreignColumns fk) = 0 then
        Inl (Error ''Foreign columns must not be empty'')
      else if length (fk_localColumns fk) = 0 then
        Inl (Error ''Local columns must not be empty'')
      else if length (fk_foreignColumns fk) \<noteq> length (fk_localColumns fk) then
        Inl (Error ''Foreign key columns and local columns must have the same length'')
      else if \<exists>c \<in> set (fk_localColumns fk). c \<notin> set (tbl_columns t) then
        Inl (Error ''Local column must belong to the local table'')
      else if \<not> distinct (fk_localColumns fk) then
        Inl (Error ''Local columns must be unique'')
      else if \<not> distinct (fk_foreignColumns fk) then
        Inl (Error ''Foreign columns must be unique'')
      else Inr ())"

text \<open>\<open>Unique.verify\<close> for a constraint mounted on table \<open>t\<close>.\<close>

definition verifyUnique :: "Table \<Rightarrow> Unique \<Rightarrow> error + unit" where
  "verifyUnique t u =
     (if \<exists>c \<in> set (unq_columns u). c \<notin> set (tbl_columns t) then
        Inl (Error ''Unique column must belong to the table'')
      else if \<not> distinct (unq_columns u) then
        Inl (Error ''Unique columns must be unique'')
      else Inr ())"

text \<open>Running a check over a list stops at the first failure.\<close>

fun forEachE :: "('a \<Rightarrow> error + unit) \<Rightarrow> 'a list \<Rightarrow> error + unit" where
  "forEachE f [] = Inr ()"
| "forEachE f (x # xs) = (case f x of Inl e \<Rightarrow> Inl e | Inr u \<Rightarrow> forEachE f xs)"

text \<open>
  \<open>Table.verify\<close>. The two loops that compare the owner of each column and of each
  index with the table hold by the representation and have no branch here.
\<close>

definition verify :: "Table \<Rightarrow> error + unit" where
  "verify t =
     (case verifyPrimaryKey t of
        Inl e \<Rightarrow> Inl e
      | Inr u \<Rightarrow>
          (case forEachE (verifyForeignKey t) (tbl_foreignKeys t) of
             Inl e \<Rightarrow> Inl e
           | Inr u \<Rightarrow> forEachE (verifyUnique t) (tbl_uniques t)))"

text \<open>\<open>allIndexes\<close>: every index, with the name of its owner table.\<close>

definition allIndexes :: "Definitions \<Rightarrow> (string \<times> Index) list" where
  "allIndexes d = concat (map (\<lambda>t. map (Pair (tbl_name t)) (tbl_indexes t)) (defs_tables d))"

text \<open>
  \<open>allSingleColumnForeignKeys\<close>: every foreign key with exactly one local column,
  with the name of its owner table and with that column (\<open>fk.localColumns[0]\<close>).
\<close>

definition singleColumnForeignKeys :: "Table \<Rightarrow> (string \<times> ForeignKey \<times> Column) list" where
  "singleColumnForeignKeys t =
     concat (map (\<lambda>fk. case fk_localColumns fk of [c] \<Rightarrow> [(tbl_name t, fk, c)] | other \<Rightarrow> [])
                 (tbl_foreignKeys t))"

definition allSingleColumnForeignKeys :: "Definitions \<Rightarrow> (string \<times> ForeignKey \<times> Column) list" where
  "allSingleColumnForeignKeys d = concat (map singleColumnForeignKeys (defs_tables d))"

section \<open>Statement generation (src/sql-utils.ts)\<close>

text \<open>A string or \<open>null\<close> used as a condition: \<open>null\<close> and the empty string are falsy.\<close>

definition truthy :: "string option \<Rightarrow> bool" where
  "truthy d = (case d of None \<Rightarrow> False | Some s \<Rightarrow> s \<noteq> [])"

text \<open>Mapping a fallible function over a list stops at the first failure.\<close>

fun mapE :: "('a \<Rightarrow> error + 'b) \<Rightarrow> 'a list \<Rightarrow> error + 'b list" where
  "mapE f [] = Inr []"
| "mapE f (x # xs) =
     (case f x of
        Inl e \<Rightarrow> Inl e
      | Inr y \<Rightarrow> (case mapE f xs of Inl e \<Rightarrow> Inl e | Inr ys \<Rightarrow> Inr (y # ys)))"

text \<open>\<open>columns[0]!.name\<close>: reading the name of the first element of an array.\<close>

definition firstColumnName :: "Column list \<Rightarrow> error + string" where
  "firstColumnName cs =
     (case cs of
        [] \<Rightarrow> Inl (TypeError ''Cannot read properties of undefined'')
      | c # rest \<Rightarrow> Inr (col_name c))"

text \<open>The \<open>REFERENCES\<close> clause of a single-column foreign key.\<close>

definition referencesClause :: "ForeignKey \<Rightarrow> error + string" where
  "referencesClause fk =
     (case firstColumnName (fk_foreignColumns fk) of
        Inl e \<Rightarrow> Inl e
      | Inr n \<Rightarrow>
          Inr (''REFERENCES '' @ bq (fk_foreignTable fk) @ ''('' @ bq n @ '') ON DELETE ''
               @ actionText (fk_onDelete fk) @ '' ON UPDATE '' @ actionText (fk_onUpdate fk)))"

text \<open>
  The single-column foreign key that \<open>createTableSQL\<close> looks up for a column:
  \<open>fk.localColumns.length === 1 && fk.localColumns[0]!.name === col.name\<close>.
\<close>

definition isSingleColumnKeyOn :: "string \<Rightarrow> ForeignKey \<Rightarrow> bool" where
  "isSingleColumnKeyOn n fk =
     (case fk_localColumns fk of [c] \<Rightarrow> col_name c = n | other \<Rightarrow> False)"

definition singleColumnKeyOf :: "Table \<Rightarrow> Column \<Rightarrow> ForeignKey option" where
  "singleColumnKeyOf table col = find (isSingleColumnKeyOn (col_name col)) (tbl_foreignKeys table)"

text \<open>
  One column line of \<open>CREATE TABLE\<close> (the body of the loop over the columns), up to
  the reference clause.
\<close>

definition columnLine :: "Column \<Rightarrow> string" where
  "columnLine col =
     (let colSql = ''    '' @ bq (col_name col) @ '' '' @ columnTypeText (col_type col);
          colSql = (if col_notNull col then colSql @ '' NOT NULL'' else colSql);
          colSql = (if col_autoIncrement col then colSql @ '' AUTO_INCREMENT'' else colSql)
      in case col_defaultValue col of
           None \<Rightarrow> colSql
         | Some d \<Rightarrow> if d \<noteq> [] then colSql @ '' DEFAULT '' @ d else colSql)"

text \<open>The column line with the reference clause, appended when \<open>fk && references\<close>.\<close>

definition createTableColumnRow :: "Table \<Rightarrow> bool \<Rightarrow> Column \<Rightarrow> error + string" where
  "createTableColumnRow table references col =
     (case singleColumnKeyOf table col of
        None \<Rightarrow> Inr (columnLine col)
      | Some fk \<Rightarrow>
          if references then
            (case referencesClause fk of
               Inl e \<Rightarrow> Inl e
             | Inr r \<Rightarrow> Inr (columnLine col @ '' '' @ r))
          else Inr (columnLine col))"

text \<open>
  A slot of the primary key inside \<open>map(\<dots>).join(',')\<close>: \<open>map\<close> skips a hole and
  \<open>join\<close> prints it as the empty string.
\<close>

definition primaryKeySlotText :: "Column option \<Rightarrow> string" where
  "primaryKeySlotText slot = (case slot of None \<Rightarrow> [] | Some c \<Rightarrow> bq (col_name c))"

definition foreignKeyRow :: "ForeignKey \<Rightarrow> string" where
  "foreignKeyRow fk =
     ''FOREIGN KEY ('' @ join '','' (map (\<lambda>c. bq (col_name c)) (fk_localColumns fk))
     @ '') REFERENCES '' @ bq (fk_foreignTable fk) @ ''(''
     @ join '','' (map (\<lambda>c. bq (col_name c)) (fk_foreignColumns fk))
     @ '') ON DELETE '' @ actionText (fk_onDelete fk) @ '' ON UPDATE '' @ actionText (fk_onUpdate fk)"

definition uniqueRow :: "Unique \<Rightarrow> string" where
  "uniqueRow u = ''    UNIQUE ('' @ join '','' (map (\<lambda>c. bq (col_name c)) (unq_columns u)) @ '')''"

text \<open>The rows that follow the column lines: primary key, multi-column keys, uniques.\<close>

definition constraintRows :: "Table \<Rightarrow> string list" where
  "constraintRows table =
     (if length (tbl_primaryKey table) > 0
      then [''    PRIMARY KEY ('' @ join '','' (map primaryKeySlotText (tbl_primaryKey table)) @ '')'']
      else [])
     @ map foreignKeyRow (filter (\<lambda>fk. length (fk_localColumns fk) \<noteq> 1) (tbl_foreignKeys table))
     @ map uniqueRow (tbl_uniques table)"

definition createTableSQL :: "Table \<Rightarrow> bool \<Rightarrow> string option \<Rightarrow> error + string list" where
  "createTableSQL table references name =
     (case mapE (createTableColumnRow table references) (tbl_columns table) of
        Inl e \<Rightarrow> Inl e
      | Inr columnRows \<Rightarrow>
          (let sqlRows = columnRows @ constraintRows table
           in Inr [''CREATE TABLE '' @ bq (case name of None \<Rightarrow> tbl_name table | Some n \<Rightarrow> n)
                   @ '' ('' @ [newline] @ join ('','' @ [newline]) sqlRows @ [newline] @ '')'']))"

definition removeTableSQL :: "string \<Rightarrow> string list" where
  "removeTableSQL tableName = [''DROP TABLE '' @ bq tableName]"

text \<open>\<open>removeColumnSQL\<close>; the first argument is \<open>column.ownerTable.name\<close>.\<close>

definition removeColumnSQL :: "string \<Rightarrow> Column \<Rightarrow> string list" where
  "removeColumnSQL tableName column =
     [''ALTER TABLE '' @ bq tableName @ '' DROP COLUMN '' @ bq (col_name column)]"

definition copyDataSQL :: "string \<Rightarrow> string \<Rightarrow> string list \<Rightarrow> string list" where
  "copyDataSQL from to columns =
     [''INSERT INTO '' @ bq to @ '' SELECT '' @ join '','' (map bq columns) @ '' FROM '' @ bq from]"

definition defineColumnSql :: "Column \<Rightarrow> bool \<Rightarrow> string" where
  "defineColumnSql column forceDefault =
     (let sql = bq (col_name column) @ '' '' @ columnTypeText (col_type column);
          defaultValue = col_defaultValue column;
          defaultValue =
            (if \<not> (truthy defaultValue \<or> defaultValue = Some ''NULL'') \<and> forceDefault then
               (if col_type column = INTEGER \<or> col_type column = REAL then Some ''0''
                else Some [dquote, dquote])
             else defaultValue);
          defaultValue = (if defaultValue = Some [] then Some [dquote, dquote] else defaultValue);
          sql = (if col_notNull column then sql @ '' NOT NULL'' else sql);
          sql = (if col_autoIncrement column then sql @ '' AUTO_INCREMENT'' else sql)
      in case defaultValue of
           None \<Rightarrow> sql
         | Some d \<Rightarrow> if d \<noteq> [] then sql @ '' DEFAULT '' @ d else sql)"

definition addColumnToTableSQL :: "string \<Rightarrow> Column \<Rightarrow> string list" where
  "addColumnToTableSQL tableName column =
     (if col_notNull column \<and> (col_defaultValue column = None \<or> col_defaultValue column = Some ''NULL'') then
        [''ALTER TABLE '' @ bq tableName @ '' ADD COLUMN '' @ defineColumnSql column True,
         ''ALTER TABLE '' @ bq tableName @ '' ALTER COLUMN '' @ bq (col_name column) @ '' TO ''
           @ defineColumnSql column True]
      else [''ALTER TABLE '' @ bq tableName @ '' ADD COLUMN '' @ defineColumnSql column False])"

text \<open>\<open>addColumnSQL\<close>; the first argument is \<open>column.ownerTable.name\<close>.\<close>

definition addColumnSQL :: "string \<Rightarrow> Column \<Rightarrow> string list" where
  "addColumnSQL tableName column = addColumnToTableSQL tableName column"

definition addIndexToTableSQL :: "string \<Rightarrow> string \<Rightarrow> string list \<Rightarrow> string list" where
  "addIndexToTableSQL tableName indexName columns =
     [''CREATE INDEX IF NOT EXISTS '' @ bq indexName @ '' ON '' @ bq tableName @ '' (''
      @ join '','' (map bq columns) @ '')'']"

definition removeForeignKeyFromColumnSQL :: "string \<Rightarrow> Column \<Rightarrow> string list" where
  "removeForeignKeyFromColumnSQL tableName column =
     [''ALTER TABLE '' @ bq tableName @ '' ALTER COLUMN '' @ bq (col_name column) @ '' TO ''
      @ defineColumnSql column False]"

definition addForeignKeyToColumnSQL :: "string \<Rightarrow> Column \<Rightarrow> ForeignKey \<Rightarrow> error + string list" where
  "addForeignKeyToColumnSQL tableName column fk =
     (case referencesClause fk of
        Inl e \<Rightarrow> Inl e
      | Inr ref \<Rightarrow>
          Inr [''ALTER TABLE '' @ bq tableName @ '' ALTER COLUMN '' @ bq (col_name column) @ '' TO ''
               @ defineColumnSql column False @ '' '' @ ref])"

text \<open>
  \<open>to.primaryKey.find((c) => c.name === column.name)\<close>: the callback reads \<open>c.name\<close>
  at every slot it visits, and a hole is visited as \<open>undefined\<close>.
\<close>

fun findPrimaryKey :: "Column option list \<Rightarrow> string \<Rightarrow> error + Column option" where
  "findPrimaryKey [] n = Inr None"
| "findPrimaryKey (None # rest) n = Inl (TypeError ''Cannot read properties of undefined'')"
| "findPrimaryKey (Some c # rest) n = (if col_name c = n then Inr (Some c) else findPrimaryKey rest n)"

text \<open>Whether some single-column unique constraint of the table is on the column name.\<close>

definition findSingleUnique :: "Table \<Rightarrow> string \<Rightarrow> Unique option" where
  "findSingleUnique to n =
     find (\<lambda>u. find (\<lambda>c. col_name c = n) (unq_columns u) \<noteq> None \<and> length (unq_columns u) = 1)
          (tbl_uniques to)"

text \<open>
  The body of the first loop of \<open>recreateTableSql\<close>, for one column of \<open>to\<close> that
  \<open>from\<close> does not have.
\<close>

definition addMissingColumnSql :: "Table \<Rightarrow> Table \<Rightarrow> Column \<Rightarrow> error + string list" where
  "addMissingColumnSql from to column =
     (let tmpDefaultValueForOldTable =
            (if col_type column = INTEGER \<or> col_type column = REAL then ''0'' else [])
      in case findPrimaryKey (tbl_primaryKey to) (col_name column) of
           Inl e \<Rightarrow> Inl e
         | Inr isPk \<Rightarrow>
             (let isUnique = (isPk \<noteq> None \<or> findSingleUnique to (col_name column) \<noteq> None);
                  tmpDefaultValueForOldTable =
                    (if col_defaultValue column \<noteq> None \<and> col_defaultValue column \<noteq> Some ''NULL''
                        \<and> \<not> isUnique
                     then (case col_defaultValue column of Some d \<Rightarrow> d | None \<Rightarrow> tmpDefaultValueForOldTable)
                     else tmpDefaultValueForOldTable)
              in Inr (addColumnToTableSQL (tbl_name from)
                        (newColumn (col_name column) (col_type column) (col_notNull column)
                                   (Some tmpDefaultValueForOldTable) (col_autoIncrement column))
                      @ (if isUnique
                         then [''UPDATE '' @ bq (tbl_name from) @ '' SET '' @ bq (col_name column)
                               @ '' = (abs(random()) % 10000000)'']
                         else []))))"

text \<open>
  \<open>recreateTableSql\<close>. The first argument is the string that
  \<open>customAlphabet('1234567890abcdef', 16)()\<close> returned in this call.
\<close>

definition recreateTableSql :: "string \<Rightarrow> Table \<Rightarrow> Table \<Rightarrow> error + string list" where
  "recreateTableSql nanoid from to =
     (let newSuffix = ''__new__'' @ nanoid;
          newTmpName = tbl_name to @ newSuffix
      in case mapE (addMissingColumnSql from to)
                   (filter (\<lambda>column. \<not> hasColumn from (col_name column)) (tbl_columns to)) of
           Inl e \<Rightarrow> Inl e
         | Inr added \<Rightarrow>
             (let columns = map col_name (tbl_columns to)
              in case createTableSQL to False (Some newTmpName) of
                   Inl e \<Rightarrow> Inl e
                 | Inr created \<Rightarrow>
                     Inr (concat added @ created
                          @ copyDataSQL (tbl_name from) newTmpName columns
                          @ removeTableSQL (tbl_name from)
                          @ [''ALTER TABLE '' @ bq newTmpName @ '' RENAME TO '' @ bq (tbl_name from)])))"

section \<open>The diff engine (src/differences.ts)\<close>

record Operation =
  op_title :: string
  op_sql :: "string list"

record DifferencesOptions =
  creationMode :: bool

record PushSummary =
  addedColumns :: "string list"
  removedColumns :: "string list"
  addedTables :: "string list"
  removedTables :: "string list"
  recreatedTables :: "string list"
  recreateReasons :: "(string \<times> string) list"

text \<open>\<open>options?.creationMode\<close> used as a condition.\<close>

definition creationModeOn :: "DifferencesOptions option \<Rightarrow> bool" where
  "creationModeOn options = (case options of None \<Rightarrow> False | Some opts \<Rightarrow> creationMode opts)"

definition getTablesToDelete :: "Definitions \<Rightarrow> Definitions \<Rightarrow> Table list" where
  "getTablesToDelete from to = filter (\<lambda>table. \<not> hasTable to (tbl_name table)) (defs_tables from)"

definition getTablesToAdd :: "Definitions \<Rightarrow> Definitions \<Rightarrow> Table list" where
  "getTablesToAdd from to = filter (\<lambda>table. \<not> hasTable from (tbl_name table)) (defs_tables to)"

definition getColumnsToAddFromTables :: "Table \<Rightarrow> Table \<Rightarrow> Column list" where
  "getColumnsToAddFromTables from to =
     filter (\<lambda>column. \<not> hasColumn from (col_name column)) (tbl_columns to)"

text \<open>A set of columns is a list of columns, each with the name of its owner table.\<close>

definition getColumnsToAdd :: "Definitions \<Rightarrow> Definitions \<Rightarrow> (string \<times> Column) list" where
  "getColumnsToAdd from to =
     concat (map (\<lambda>tableTo.
                    case getTableOpt from (tbl_name tableTo) of
                      None \<Rightarrow> []
                    | Some tableFrom \<Rightarrow>
                        map (Pair (tbl_name tableTo)) (getColumnsToAddFromTables tableFrom tableTo))
                 (defs_tables to))"

definition getColumnsToDeleteFromTables :: "Table \<Rightarrow> Table \<Rightarrow> Column list" where
  "getColumnsToDeleteFromTables from to =
     filter (\<lambda>column. \<not> hasColumn to (col_name column)) (tbl_columns from)"

definition getColumnsToDelete :: "Definitions \<Rightarrow> Definitions \<Rightarrow> (string \<times> Column) list" where
  "getColumnsToDelete from to =
     concat (map (\<lambda>tableTo.
                    case getTableOpt from (tbl_name tableTo) of
                      None \<Rightarrow> []
                    | Some tableFrom \<Rightarrow>
                        map (Pair (tbl_name tableFrom)) (getColumnsToDeleteFromTables tableFrom tableTo))
                 (defs_tables to))"

definition indexesEqual :: "Index \<Rightarrow> Index \<Rightarrow> bool" where
  "indexesEqual from to =
     (idx_unique from = idx_unique to \<and> idx_name from = idx_name to
      \<and> join '','' (map (\<lambda>c. encodeURIComponent (col_name c)) (idx_columns from))
          = join '','' (map (\<lambda>c. encodeURIComponent (col_name c)) (idx_columns to)))"

text \<open>
  \<open>new Map(defs.allIndexes().map((i) => [i.name, i]))\<close>: a later index of the same
  name replaces the value and keeps the position of the first.
\<close>

definition indexesByName :: "Definitions \<Rightarrow> (string \<times> (string \<times> Index)) list" where
  "indexesByName d = fold (\<lambda>oi m. AList.update (idx_name (snd oi)) oi m) (allIndexes d) []"

definition getIndexesToAdd :: "Definitions \<Rightarrow> Definitions \<Rightarrow> (string \<times> Index) list" where
  "getIndexesToAdd from to =
     (let indexesFrom = indexesByName from; indexesTo = indexesByName to
      in map snd (filter (\<lambda>(name, index).
                            case map_of indexesFrom name of
                              None \<Rightarrow> True
                            | Some indexFrom \<Rightarrow> \<not> indexesEqual (snd indexFrom) (snd index))
                         indexesTo))"

definition getIndexesToRemove :: "Definitions \<Rightarrow> Definitions \<Rightarrow> (string \<times> Index) list" where
  "getIndexesToRemove from to =
     (let indexesFrom = indexesByName from; indexesTo = indexesByName to
      in map snd (filter (\<lambda>(name, index).
                            case map_of indexesTo name of
                              None \<Rightarrow> True
                            | Some indexTo \<Rightarrow> \<not> indexesEqual (snd index) (snd indexTo))
                         indexesFrom))"

definition stringifyColumnsList :: "Column list \<Rightarrow> string" where
  "stringifyColumnsList columns = join '','' (sort (map (\<lambda>col. encodeURIComponent (col_name col)) columns))"

text \<open>
  The primary key as the comparison reads it. The comparison runs only on verified
  tables, whose slots are all filled.
\<close>

definition primaryKeyColumns :: "Table \<Rightarrow> Column list" where
  "primaryKeyColumns t = concat (map (\<lambda>slot. case slot of None \<Rightarrow> [] | Some c \<Rightarrow> [c]) (tbl_primaryKey t))"

definition primaryKeysEqual :: "Table \<Rightarrow> Table \<Rightarrow> bool" where
  "primaryKeysEqual from to =
     (stringifyColumnsList (primaryKeyColumns from) = stringifyColumnsList (primaryKeyColumns to))"

definition stringifyUnique :: "Unique \<Rightarrow> string" where
  "stringifyUnique unique = stringifyColumnsList (unq_columns unique)"

text \<open>\<open>[...new Set(xs)].sort().join(',')\<close>: the sort erases the insertion order of the set.\<close>

definition stringifyUniques :: "Unique list \<Rightarrow> string" where
  "stringifyUniques uniques = join '','' (sort (remdups (map stringifyUnique uniques)))"

definition uniquesEqual :: "Table \<Rightarrow> Table \<Rightarrow> bool" where
  "uniquesEqual from to = (stringifyUniques (tbl_uniques from) = stringifyUniques (tbl_uniques to))"

definition stringifyForeignKey :: "ForeignKey \<Rightarrow> string" where
  "stringifyForeignKey fk =
     stringifyColumnsList (fk_localColumns fk) @ '' -> '' @ stringifyColumnsList (fk_foreignColumns fk)
     @ '' on '' @ fk_foreignTable fk @ '' | '' @ actionText (fk_onDelete fk)
     @ '' | '' @ actionText (fk_onUpdate fk)"

definition stringifyForeignKeys :: "ForeignKey list \<Rightarrow> string" where
  "stringifyForeignKeys fks = join '','' (sort (remdups (map stringifyForeignKey fks)))"

definition foreignKeysEqual :: "Table \<Rightarrow> Table \<Rightarrow> bool" where
  "foreignKeysEqual from to =
     (stringifyForeignKeys (tbl_foreignKeys from) = stringifyForeignKeys (tbl_foreignKeys to))"

text \<open>\<open>map.get(key) ?? []\<close> on a map from names to sets of names.\<close>

definition getOrEmpty :: "(string \<times> string list) list \<Rightarrow> string \<Rightarrow> string list" where
  "getOrEmpty m k = (case map_of m k of None \<Rightarrow> [] | Some v \<Rightarrow> v)"

definition tablesReferences :: "Definitions \<Rightarrow> (string \<times> string list) list" where
  "tablesReferences defs =
     fold (\<lambda>table dependencyGraph.
             fold (\<lambda>fk g. AList.update (fk_foreignTable fk)
                                        (set_add (tbl_name table) (getOrEmpty g (fk_foreignTable fk))) g)
                  (tbl_foreignKeys table) dependencyGraph)
          (defs_tables defs) []"

text \<open>The text of \<open>${column.defaultValue}\<close> inside a template literal.\<close>

definition defaultText :: "string option \<Rightarrow> string" where
  "defaultText d = (case d of None \<Rightarrow> ''null'' | Some s \<Rightarrow> s)"

text \<open>The reasons pushed by the loop over the columns that both tables have.\<close>

definition columnReasons :: "Table \<Rightarrow> Table \<Rightarrow> string list" where
  "columnReasons fromTable toTable =
     concat (map (\<lambda>column.
                    case getColumnOpt toTable (col_name column) of
                      None \<Rightarrow> []
                    | Some toColumn \<Rightarrow>
                        (if col_type column \<noteq> col_type toColumn
                         then [''type of column '' @ col_name column @ '' of table '' @ tbl_name fromTable]
                         else [])
                        @ (if col_notNull column \<noteq> col_notNull toColumn
                           then [''notNull of column '' @ col_name column @ '' of table '' @ tbl_name fromTable]
                           else [])
                        @ (if col_defaultValue column \<noteq> col_defaultValue toColumn
                           then [''default of column '' @ col_name column @ '' of table '' @ tbl_name fromTable
                                 @ '' (from '' @ defaultText (col_defaultValue column) @ '' to ''
                                 @ defaultText (col_defaultValue toColumn) @ '')'']
                           else []))
                 (tbl_columns fromTable))"

definition pkChanged :: "Table \<Rightarrow> Table \<Rightarrow> bool" where
  "pkChanged fromTable toTable = (\<not> primaryKeysEqual fromTable toTable)"

definition uniquesChanged :: "Table \<Rightarrow> Table \<Rightarrow> bool" where
  "uniquesChanged fromTable toTable = (\<not> uniquesEqual fromTable toTable)"

definition fksChanged :: "Table \<Rightarrow> Table \<Rightarrow> bool" where
  "fksChanged fromTable toTable = (\<not> foreignKeysEqual fromTable toTable)"

definition hasUniqueIndexes :: "Table \<Rightarrow> bool" where
  "hasUniqueIndexes fromTable = (find idx_unique (tbl_indexes fromTable) \<noteq> None)"

text \<open>
  The condition of the big \<open>if\<close> of \<open>getTablesToRecreate\<close>; the first argument is
  \<open>tablesToRecreateFromColumnsToAdd\<close>, a set that is only asked for membership.
\<close>

definition structuralTrigger :: "string list \<Rightarrow> Table \<Rightarrow> Table \<Rightarrow> bool" where
  "structuralTrigger fromColumnsToAdd fromTable toTable =
     (pkChanged fromTable toTable \<or> uniquesChanged fromTable toTable \<or> fksChanged fromTable toTable
      \<or> hasUniqueIndexes fromTable \<or> tbl_name fromTable \<in> set fromColumnsToAdd)"

definition structuralReasons :: "string list \<Rightarrow> Table \<Rightarrow> Table \<Rightarrow> string list" where
  "structuralReasons fromColumnsToAdd fromTable toTable =
     (if tbl_name fromTable \<in> set fromColumnsToAdd then [''added columns''] else [])
     @ (if pkChanged fromTable toTable then [''pk''] else [])
     @ (if uniquesChanged fromTable toTable then [''uniques''] else [])
     @ (if fksChanged fromTable toTable then [''fks''] else [])
     @ (if hasUniqueIndexes fromTable then [''unique indexes (migrate to UNIQUE on definition)''] else [])"

record RecreateSets =
  tablesToRecreate :: "string list"
  tablesToDropReferences :: "string list"
  reasons :: "(string \<times> string) list"

text \<open>One round of the loop of \<open>getTablesToRecreate\<close> over the tables of \<open>from\<close>.\<close>

definition recreateStep ::
  "Definitions \<Rightarrow> (string \<times> string list) list \<Rightarrow> string list \<Rightarrow> Table \<Rightarrow> RecreateSets \<Rightarrow> RecreateSets" where
  "recreateStep to references fromColumnsToAdd fromTable st =
     (case getTableOpt to (tbl_name fromTable) of
        None \<Rightarrow> st
      | Some toTable \<Rightarrow>
          (let structural = structuralTrigger fromColumnsToAdd fromTable toTable;
               reason = columnReasons fromTable toTable
                        @ (if structural then structuralReasons fromColumnsToAdd fromTable toTable else []);
               dropped = (if structural
                          then fold set_add (filter (hasTable to) (getOrEmpty references (tbl_name fromTable)))
                                    (tablesToDropReferences st)
                          else tablesToDropReferences st)
           in if length reason > 0 then
                \<lparr>tablesToRecreate = set_add (tbl_name fromTable) (tablesToRecreate st),
                 tablesToDropReferences = set_add (tbl_name fromTable) dropped,
                 reasons = AList.update (tbl_name fromTable) (join '', '' reason) (reasons st)\<rparr>
              else st\<lparr>tablesToDropReferences := dropped\<rparr>))"

definition getTablesToRecreate :: "Definitions \<Rightarrow> Definitions \<Rightarrow> RecreateSets" where
  "getTablesToRecreate from to =
     fold (recreateStep to (tablesReferences from) (map fst (getColumnsToAdd from to)))
          (defs_tables from)
          \<lparr>tablesToRecreate = [], tablesToDropReferences = [], reasons = []\<rparr>"

text \<open>The working sets of \<open>differences\<close> once the tables to recreate have been folded in.\<close>

record WorkingSets =
  ws_tablesToDelete :: "Table list"
  ws_tablesToAdd :: "Table list"
  ws_columnsToAdd :: "(string \<times> Column) list"
  ws_columnsToDelete :: "(string \<times> Column) list"
  ws_recreate :: RecreateSets
  ws_indexesToAdd :: "(string \<times> Index) list"
  ws_indexesToRemove :: "(string \<times> Index) list"

text \<open>Folding a fallible step over a list stops at the first failure.\<close>

fun foldE :: "('a \<Rightarrow> 's \<Rightarrow> error + 's) \<Rightarrow> 'a list \<Rightarrow> 's \<Rightarrow> error + 's" where
  "foldE f [] s = Inr s"
| "foldE f (x # xs) s = (case f x s of Inl e \<Rightarrow> Inl e | Inr s' \<Rightarrow> foldE f xs s')"

text \<open>
  One round of the loop "all columns from tables that need to be recreated": the
  table's columns leave the column sets and its indexes enter the index sets.
  \<open>tables.get(name)!\<close> followed by a property read fails on a missing table.
\<close>

definition foldRecreatedTable :: "Definitions \<Rightarrow> Definitions \<Rightarrow> string \<Rightarrow> WorkingSets \<Rightarrow> error + WorkingSets" where
  "foldRecreatedTable from to name ws =
     (case getTableOpt from name of
        None \<Rightarrow> Inl (TypeError ''Cannot read properties of undefined'')
      | Some tableFrom \<Rightarrow>
          (case getTableOpt to name of
             None \<Rightarrow> Inl (TypeError ''Cannot read properties of undefined'')
           | Some tableTo \<Rightarrow>
               Inr (ws\<lparr>ws_columnsToDelete :=
                          fold (\<lambda>v. removeAll (tbl_name tableFrom, v)) (tbl_columns tableFrom) (ws_columnsToDelete ws),
                        ws_columnsToAdd :=
                          fold (\<lambda>v. removeAll (tbl_name tableTo, v)) (tbl_columns tableTo) (ws_columnsToAdd ws),
                        ws_indexesToRemove :=
                          fold (\<lambda>index. set_add (tbl_name tableFrom, index)) (tbl_indexes tableFrom) (ws_indexesToRemove ws),
                        ws_indexesToAdd :=
                          fold (\<lambda>index. set_add (tbl_name tableTo, index)) (tbl_indexes tableTo) (ws_indexesToAdd ws)\<rparr>)))"

definition workingSets :: "Definitions \<Rightarrow> Definitions \<Rightarrow> error + WorkingSets" where
  "workingSets from to =
     (let r = getTablesToRecreate from to
      in foldE (foldRecreatedTable from to) (tablesToRecreate r)
           \<lparr>ws_tablesToDelete = getTablesToDelete from to,
            ws_tablesToAdd = getTablesToAdd from to,
            ws_columnsToAdd = [],
            ws_columnsToDelete = getColumnsToDelete from to,
            ws_recreate = r,
            ws_indexesToAdd = getIndexesToAdd from to,
            ws_indexesToRemove = getIndexesToRemove from to\<rparr>)"

text \<open>
  Each operation is paired with a tag that records which of the nine loops of
  \<open>differences\<close> pushed it and for which element; the tag is not part of the result.
\<close>

datatype OperationKind =
    RemoveIndex string string
  | RemoveForeignKey string string
  | CreateTable string
  | RemoveTable string
  | AddColumn string string
  | RemoveColumn string string
  | RecreateTable string
  | AddForeignKey string string
  | AddIndex string string

definition removeIndexOperation :: "string \<times> Index \<Rightarrow> OperationKind \<times> Operation" where
  "removeIndexOperation oi =
     (RemoveIndex (fst oi) (idx_name (snd oi)),
      \<lparr>op_title = ''Remove index '' @ idx_name (snd oi),
       op_sql = [''DROP INDEX '' @ bq (idx_name (snd oi))]\<rparr>)"

definition removeForeignKeyOperation :: "string \<times> ForeignKey \<times> Column \<Rightarrow> OperationKind \<times> Operation" where
  "removeForeignKeyOperation ofk =
     (case ofk of (owner, fk, column) \<Rightarrow>
        (RemoveForeignKey owner (col_name column),
         \<lparr>op_title = ''Remove foreign key '' @ col_name column @ '' from table '' @ owner,
          op_sql = removeForeignKeyFromColumnSQL owner column\<rparr>))"

definition createTableOperation :: "Table \<Rightarrow> error + OperationKind \<times> Operation" where
  "createTableOperation t =
     (case createTableSQL t False None of
        Inl e \<Rightarrow> Inl e
      | Inr sql \<Rightarrow> Inr (CreateTable (tbl_name t), \<lparr>op_title = ''Create table '' @ tbl_name t, op_sql = sql\<rparr>))"

definition removeTableOperation :: "Table \<Rightarrow> OperationKind \<times> Operation" where
  "removeTableOperation t =
     (RemoveTable (tbl_name t),
      \<lparr>op_title = ''Remove table '' @ tbl_name t, op_sql = removeTableSQL (tbl_name t)\<rparr>)"

definition addColumnOperation :: "string \<times> Column \<Rightarrow> OperationKind \<times> Operation" where
  "addColumnOperation oc =
     (AddColumn (fst oc) (col_name (snd oc)),
      \<lparr>op_title = ''Add column '' @ col_name (snd oc) @ '' to table '' @ fst oc,
       op_sql = addColumnSQL (fst oc) (snd oc)\<rparr>)"

definition removeColumnOperation :: "string \<times> Column \<Rightarrow> OperationKind \<times> Operation" where
  "removeColumnOperation oc =
     (RemoveColumn (fst oc) (col_name (snd oc)),
      \<lparr>op_title = ''Remove column '' @ col_name (snd oc) @ '' from table '' @ fst oc,
       op_sql = removeColumnSQL (fst oc) (snd oc)\<rparr>)"

text \<open>
  The body of the loop over \<open>tablesToRecreate\<close>; \<open>k\<close> counts the rounds, and the
  \<open>k\<close>-th round draws \<open>nanoid k\<close> from the random generator.
\<close>

definition recreateOperation ::
  "(nat \<Rightarrow> string) \<Rightarrow> Definitions \<Rightarrow> Definitions \<Rightarrow> nat \<times> string \<Rightarrow> error + OperationKind \<times> Operation" where
  "recreateOperation nanoid from to kn =
     (case getTable from (snd kn) of
        Inl e \<Rightarrow> Inl e
      | Inr oldTable \<Rightarrow>
          (case getTable to (snd kn) of
             Inl e \<Rightarrow> Inl e
           | Inr newTable \<Rightarrow>
               (case recreateTableSql (nanoid (fst kn)) oldTable newTable of
                  Inl e \<Rightarrow> Inl e
                | Inr sql \<Rightarrow>
                    Inr (RecreateTable (snd kn),
                         \<lparr>op_title = ''Recreate table '' @ snd kn, op_sql = sql\<rparr>))))"

text \<open>
  The body of the loop over \<open>toForeignKeys\<close> when \<open>creationMode\<close> is off: no
  operation where the \<open>continue\<close> is taken, one operation otherwise.
\<close>

definition addForeignKeyOperation ::
  "Definitions \<Rightarrow> WorkingSets \<Rightarrow> string \<times> ForeignKey \<times> Column \<Rightarrow> error + (OperationKind \<times> Operation) list" where
  "addForeignKeyOperation to ws ofk =
     (case ofk of (tableName, fk, column) \<Rightarrow>
        (case (if tableName \<in> set (tablesToDropReferences (ws_recreate ws)) then Inr True
               else (case getTable to tableName of
                       Inl e \<Rightarrow> Inl e
                     | Inr t \<Rightarrow> Inr (t \<in> set (ws_tablesToAdd ws)))) of
           Inl e \<Rightarrow> Inl e
         | Inr wanted \<Rightarrow>
             if \<not> wanted then Inr []
             else (case addForeignKeyToColumnSQL tableName column fk of
                     Inl e \<Rightarrow> Inl e
                   | Inr sql \<Rightarrow>
                       Inr [(AddForeignKey tableName (col_name column),
                             \<lparr>op_title = ''Add foreign key '' @ col_name column @ '' to table '' @ tableName,
                              op_sql = sql\<rparr>)])))"

definition addIndexOperation :: "string \<times> Index \<Rightarrow> OperationKind \<times> Operation" where
  "addIndexOperation oi =
     (AddIndex (fst oi) (idx_name (snd oi)),
      \<lparr>op_title = ''Add index '' @ idx_name (snd oi),
       op_sql = addIndexToTableSQL (fst oi) (idx_name (snd oi)) (map col_name (idx_columns (snd oi)))\<rparr>)"

text \<open>The nine loops that push operations, in the order of the source.\<close>

definition emitOperations ::
  "(nat \<Rightarrow> string) \<Rightarrow> Definitions \<Rightarrow> Definitions \<Rightarrow> DifferencesOptions option \<Rightarrow> WorkingSets
     \<Rightarrow> error + (OperationKind \<times> Operation) list" where
  "emitOperations nanoid from to options ws =
     (let removedIndexes = map removeIndexOperation (ws_indexesToRemove ws);
          removedKeys = map removeForeignKeyOperation
                          (filter (\<lambda>ofk. fst ofk \<in> set (tablesToDropReferences (ws_recreate ws)))
                                  (allSingleColumnForeignKeys from))
      in case mapE createTableOperation (ws_tablesToAdd ws) of
           Inl e \<Rightarrow> Inl e
         | Inr created \<Rightarrow>
             (let removedTables = map removeTableOperation (ws_tablesToDelete ws);
                  addedColumns = map addColumnOperation (ws_columnsToAdd ws);
                  removedColumns = map removeColumnOperation (ws_columnsToDelete ws)
              in case mapE (recreateOperation nanoid from to)
                           (enumerate 0 (tablesToRecreate (ws_recreate ws))) of
                   Inl e \<Rightarrow> Inl e
                 | Inr recreated \<Rightarrow>
                     (case (if creationModeOn options then Inr []
                            else mapE (addForeignKeyOperation to ws) (allSingleColumnForeignKeys to)) of
                        Inl e \<Rightarrow> Inl e
                      | Inr addedKeys \<Rightarrow>
                          Inr (removedIndexes @ removedKeys @ created @ removedTables @ addedColumns
                               @ removedColumns @ recreated @ concat addedKeys
                               @ map addIndexOperation (ws_indexesToAdd ws)))))"

definition summaryOf :: "WorkingSets \<Rightarrow> PushSummary" where
  "summaryOf ws =
     \<lparr>addedColumns = map (\<lambda>oc. fst oc @ ''.'' @ col_name (snd oc)) (ws_columnsToAdd ws),
      removedColumns = map (\<lambda>oc. fst oc @ ''.'' @ col_name (snd oc)) (ws_columnsToDelete ws),
      addedTables = map tbl_name (ws_tablesToAdd ws),
      removedTables = map tbl_name (ws_tablesToDelete ws),
      recreatedTables = tablesToRecreate (ws_recreate ws),
      recreateReasons = reasons (ws_recreate ws)\<rparr>"

text \<open>\<open>differences\<close>, every operation still paired with its tag.\<close>

definition differencesTagged ::
  "(nat \<Rightarrow> string) \<Rightarrow> Definitions \<Rightarrow> Definitions \<Rightarrow> DifferencesOptions option
     \<Rightarrow> error + PushSummary \<times> (OperationKind \<times> Operation) list" where
  "differencesTagged nanoid from to options =
     (if creationModeOn options \<and> length (defs_tables from) > 0 then
        Inl (Error ''Creation mode is not supported for existing tables'')
      else
        case forEachE verify (defs_tables from) of
          Inl e \<Rightarrow> Inl e
        | Inr u \<Rightarrow>
            (case forEachE verify (defs_tables to) of
               Inl e \<Rightarrow> Inl e
             | Inr u \<Rightarrow>
                 (case workingSets from to of
                    Inl e \<Rightarrow> Inl e
                  | Inr ws \<Rightarrow>
                      (case emitOperations nanoid from to options ws of
                         Inl e \<Rightarrow> Inl e
                       | Inr operations \<Rightarrow> Inr (summaryOf ws, operations)))))"

text \<open>\<open>differences\<close>: the summary and the operations, tags erased.\<close>

definition differences ::
  "(nat \<Rightarrow> string) \<Rightarrow> Definitions \<Rightarrow> Definitions \<Rightarrow> DifferencesOptions option
     \<Rightarrow> error + PushSummary \<times> Operation list" where
  "differences nanoid from to options =
     (case differencesTagged nanoid from to options of
        Inl e \<Rightarrow> Inl e
      | Inr (summary, operations) \<Rightarrow> Inr (summary, map snd operations))"

section \<open>The default-literal encoder (src/drizzle.ts)\<close>











section \<open>Notions used in the statements\<close>

text \<open>The title that each loop of \<open>differences\<close> writes, read off the tag.\<close>

fun kindTitle :: "OperationKind \<Rightarrow> string" where
  "kindTitle (RemoveIndex owner index) = ''Remove index '' @ index"
| "kindTitle (RemoveForeignKey owner column) = ''Remove foreign key '' @ column @ '' from table '' @ owner"
| "kindTitle (CreateTable t) = ''Create table '' @ t"
| "kindTitle (RemoveTable t) = ''Remove table '' @ t"
| "kindTitle (AddColumn owner column) = ''Add column '' @ column @ '' to table '' @ owner"
| "kindTitle (RemoveColumn owner column) = ''Remove column '' @ column @ '' from table '' @ owner"
| "kindTitle (RecreateTable t) = ''Recreate table '' @ t"
| "kindTitle (AddForeignKey owner column) = ''Add foreign key '' @ column @ '' to table '' @ owner"
| "kindTitle (AddIndex owner index) = ''Add index '' @ index"



text \<open>
  What one round of the loop of \<open>getTablesToRecreate\<close> decides for a table of
  \<open>from\<close>: whether it is recreated (some reason was pushed) and whether the tables
  that reference it lose their references (the big \<open>if\<close> was entered).
\<close>

definition recreateCondition :: "Definitions \<Rightarrow> string list \<Rightarrow> Table \<Rightarrow> bool" where
  "recreateCondition to added fromTable =
     (case getTableOpt to (tbl_name fromTable) of
        None \<Rightarrow> False
      | Some toTable \<Rightarrow> columnReasons fromTable toTable \<noteq> [] \<or> structuralTrigger added fromTable toTable)"

definition cascadeCondition :: "Definitions \<Rightarrow> string list \<Rightarrow> Table \<Rightarrow> bool" where
  "cascadeCondition to added fromTable =
     (case getTableOpt to (tbl_name fromTable) of
        None \<Rightarrow> False
      | Some toTable \<Rightarrow> structuralTrigger added fromTable toTable)"

text \<open>
  The columns and the indexes of the tables named in a list, as pairs with the owner's
  name: what the loop over the recreated tables takes out of the column sets and puts
  into the index sets.
\<close>

definition ownedColumn :: "Definitions \<Rightarrow> string list \<Rightarrow> string \<times> Column \<Rightarrow> bool" where
  "ownedColumn d ns oc =
     (fst oc \<in> set ns \<and> (\<exists>t. getTableOpt d (fst oc) = Some t \<and> snd oc \<in> set (tbl_columns t)))"

definition ownedIndexes :: "Definitions \<Rightarrow> string list \<Rightarrow> (string \<times> Index) set" where
  "ownedIndexes d ns = {(n, i). n \<in> set ns \<and> (\<exists>t. getTableOpt d n = Some t \<and> i \<in> set (tbl_indexes t))}"

text \<open>
  Whether the loop over \<open>toForeignKeys\<close> pushes an operation for a key: its owner lost
  its references or is a new table.
\<close>

definition keyWanted :: "Definitions \<Rightarrow> WorkingSets \<Rightarrow> string \<times> ForeignKey \<times> Column \<Rightarrow> bool" where
  "keyWanted to ws ofk =
     (fst ofk \<in> set (tablesToDropReferences (ws_recreate ws))
      \<or> (case getTableOpt to (fst ofk) of None \<Rightarrow> False | Some t \<Rightarrow> t \<in> set (ws_tablesToAdd ws)))"

text \<open>The tags of the operations of \<open>differences\<close>, in order, read off the working sets.\<close>

definition plannedKinds :: "Definitions \<Rightarrow> Definitions \<Rightarrow> DifferencesOptions option \<Rightarrow> WorkingSets \<Rightarrow> OperationKind list" where
  "plannedKinds from to options ws =
     map (\<lambda>oi. RemoveIndex (fst oi) (idx_name (snd oi))) (ws_indexesToRemove ws)
     @ map (\<lambda>ofk. RemoveForeignKey (fst ofk) (col_name (snd (snd ofk))))
           (filter (\<lambda>ofk. fst ofk \<in> set (tablesToDropReferences (ws_recreate ws)))
                   (allSingleColumnForeignKeys from))
     @ map (\<lambda>t. CreateTable (tbl_name t)) (ws_tablesToAdd ws)
     @ map (\<lambda>t. RemoveTable (tbl_name t)) (ws_tablesToDelete ws)
     @ map (\<lambda>oc. AddColumn (fst oc) (col_name (snd oc))) (ws_columnsToAdd ws)
     @ map (\<lambda>oc. RemoveColumn (fst oc) (col_name (snd oc))) (ws_columnsToDelete ws)
     @ map RecreateTable (tablesToRecreate (ws_recreate ws))
     @ (if creationModeOn options then []
        else map (\<lambda>ofk. AddForeignKey (fst ofk) (col_name (snd (snd ofk))))
                 (filter (keyWanted to ws) (allSingleColumnForeignKeys to)))
     @ map (\<lambda>oi. AddIndex (fst oi) (idx_name (snd oi))) (ws_indexesToAdd ws)"






section \<open>Example snapshots\<close>

definition plainColumn :: "string \<Rightarrow> ColumnType \<Rightarrow> Column" where
  "plainColumn n t =
     \<lparr>col_name = n, col_type = t, col_notNull = False, col_defaultValue = None, col_autoIncrement = False\<rparr>"

definition plainTable :: "string \<Rightarrow> Column list \<Rightarrow> Table" where
  "plainTable n cs =
     \<lparr>tbl_name = n, tbl_columns = cs, tbl_primaryKey = [], tbl_foreignKeys = [], tbl_uniques = [],
      tbl_indexes = []\<rparr>"

definition singleKey :: "string \<Rightarrow> Column \<Rightarrow> Column \<Rightarrow> ForeignKey" where
  "singleKey target localColumn foreignColumn =
     \<lparr>fk_foreignTable = target, fk_foreignColumns = [foreignColumn], fk_localColumns = [localColumn],
      fk_onUpdate = NO_ACTION, fk_onDelete = NO_ACTION\<rparr>"

definition emptySnapshot :: Definitions where
  "emptySnapshot = \<lparr>defs_tables = []\<rparr>"

definition nanoidA :: "nat \<Rightarrow> string" where
  "nanoidA k = ''0123456789abcdef''"


definition idColumn :: Column where
  "idColumn = plainColumn ''id'' INTEGER"

definition nameColumn :: Column where
  "nameColumn = plainColumn ''name'' TEXT"

text \<open>\<open>users(id INTEGER, name TEXT)\<close> with no primary key, with \<open>id\<close> as its key, and
  with \<open>id\<close> written to slot 3 of an empty key.\<close>

definition usersTable :: Table where
  "usersTable = plainTable ''users'' [idColumn, nameColumn]"

definition usersKeyed :: Table where
  "usersKeyed = usersTable\<lparr>tbl_primaryKey := [Some idColumn]\<rparr>"




definition emailColumn :: Column where
  "emailColumn = plainColumn ''email'' TEXT"

text \<open>\<open>users\<close> with a new column \<open>email TEXT UNIQUE\<close>, and the statements that
  rebuild \<open>usersKeyed\<close> into it under the suffix \<open>0123456789abcdef\<close>.\<close>

definition usersWithEmail :: Table where
  "usersWithEmail = usersKeyed\<lparr>tbl_columns := [idColumn, nameColumn, emailColumn],
                                tbl_uniques := [\<lparr>unq_columns = [emailColumn]\<rparr>]\<rparr>"

definition shadowUsers :: string where
  "shadowUsers = ''users__new__0123456789abcdef''"

definition usersRecreateSql :: "string list" where
  "usersRecreateSql =
     [''ALTER TABLE '' @ bq ''users'' @ '' ADD COLUMN '' @ bq ''email'' @ '' TEXT DEFAULT '' @ [dquote, dquote],
      ''UPDATE '' @ bq ''users'' @ '' SET '' @ bq ''email'' @ '' = (abs(random()) % 10000000)'',
      ''CREATE TABLE '' @ bq shadowUsers @ '' ('' @ [newline]
        @ ''    '' @ bq ''id'' @ '' INTEGER,'' @ [newline]
        @ ''    '' @ bq ''name'' @ '' TEXT,'' @ [newline]
        @ ''    '' @ bq ''email'' @ '' TEXT,'' @ [newline]
        @ ''    PRIMARY KEY ('' @ bq ''id'' @ ''),'' @ [newline]
        @ ''    UNIQUE ('' @ bq ''email'' @ '')'' @ [newline] @ '')'',
      ''INSERT INTO '' @ bq shadowUsers @ '' SELECT '' @ bq ''id'' @ '','' @ bq ''name'' @ '','' @ bq ''email''
        @ '' FROM '' @ bq ''users'',
      ''DROP TABLE '' @ bq ''users'',
      ''ALTER TABLE '' @ bq shadowUsers @ '' RENAME TO '' @ bq ''users'']"

text \<open>\<open>posts(id INTEGER, user_id INTEGER REFERENCES users(id))\<close> and the snapshot of
  \<open>users\<close> and \<open>posts\<close>.\<close>

definition userIdColumn :: Column where
  "userIdColumn = plainColumn ''user_id'' INTEGER"

definition postsTable :: Table where
  "postsTable = (plainTable ''posts'' [idColumn, userIdColumn])
                  \<lparr>tbl_foreignKeys := [singleKey ''users'' userIdColumn idColumn]\<rparr>"

definition blogSnapshot :: Definitions where
  "blogSnapshot = \<lparr>defs_tables = [usersKeyed, postsTable]\<rparr>"

definition creationOn :: "DifferencesOptions option" where
  "creationOn = Some \<lparr>creationMode = True\<rparr>"

definition blogCreated :: "PushSummary \<times> Operation list" where
  "blogCreated =
     (\<lparr>addedColumns = [], removedColumns = [], addedTables = [''users'', ''posts''], removedTables = [],
       recreatedTables = [], recreateReasons = []\<rparr>,
      [\<lparr>op_title = ''Create table users'',
        op_sql = [''CREATE TABLE '' @ bq ''users'' @ '' ('' @ [newline]
                  @ ''    '' @ bq ''id'' @ '' INTEGER,'' @ [newline]
                  @ ''    '' @ bq ''name'' @ '' TEXT,'' @ [newline]
                  @ ''    PRIMARY KEY ('' @ bq ''id'' @ '')'' @ [newline] @ '')'']\<rparr>,
       \<lparr>op_title = ''Create table posts'',
        op_sql = [''CREATE TABLE '' @ bq ''posts'' @ '' ('' @ [newline]
                  @ ''    '' @ bq ''id'' @ '' INTEGER,'' @ [newline]
                  @ ''    '' @ bq ''user_id'' @ '' INTEGER'' @ [newline] @ '')'']\<rparr>])"

text \<open>The snapshot of \<open>users\<close> and \<open>posts\<close> after \<open>email\<close> was added to \<open>users\<close>.\<close>

definition blogWithEmail :: Definitions where
  "blogWithEmail = \<lparr>defs_tables = [usersWithEmail, postsTable]\<rparr>"

definition usersRebuiltSummary :: PushSummary where
  "usersRebuiltSummary =
     \<lparr>addedColumns = [], removedColumns = [], addedTables = [], removedTables = [],
      recreatedTables = [''users''], recreateReasons = [(''users'', ''added columns, uniques'')]\<rparr>"

definition dropPostsKey :: Operation where
  "dropPostsKey =
     \<lparr>op_title = ''Remove foreign key user_id from table posts'',
      op_sql = [''ALTER TABLE '' @ bq ''posts'' @ '' ALTER COLUMN '' @ bq ''user_id'' @ '' TO ''
                @ bq ''user_id'' @ '' INTEGER'']\<rparr>"

definition recreateUsers :: Operation where
  "recreateUsers = \<lparr>op_title = ''Recreate table users'', op_sql = usersRecreateSql\<rparr>"

definition addPostsKey :: Operation where
  "addPostsKey =
     \<lparr>op_title = ''Add foreign key user_id to table posts'',
      op_sql = [''ALTER TABLE '' @ bq ''posts'' @ '' ALTER COLUMN '' @ bq ''user_id'' @ '' TO ''
                @ bq ''user_id'' @ '' INTEGER REFERENCES '' @ bq ''users'' @ ''('' @ bq ''id''
                @ '') ON DELETE NO ACTION ON UPDATE NO ACTION'']\<rparr>"

text \<open>\<open>items(sku)\<close> with an index on \<open>sku\<close>: the column as text and as an integer,
  the index plain and flagged unique.\<close>

definition skuText :: Column where
  "skuText = plainColumn ''sku'' TEXT"

definition skuInteger :: Column where
  "skuInteger = plainColumn ''sku'' INTEGER"

definition itemsText :: Table where
  "itemsText = (plainTable ''items'' [skuText])
                 \<lparr>tbl_indexes := [\<lparr>idx_name = ''by_sku'', idx_unique = False, idx_columns = [skuText]\<rparr>]\<rparr>"

definition itemsInteger :: Table where
  "itemsInteger = (plainTable ''items'' [skuInteger])
                    \<lparr>tbl_indexes := [\<lparr>idx_name = ''by_sku'', idx_unique = False, idx_columns = [skuInteger]\<rparr>]\<rparr>"


definition shadowItems :: string where
  "shadowItems = ''items__new__0123456789abcdef''"

definition removeBySku :: Operation where
  "removeBySku = \<lparr>op_title = ''Remove index by_sku'', op_sql = [''DROP INDEX '' @ bq ''by_sku'']\<rparr>"

definition addBySku :: Operation where
  "addBySku =
     \<lparr>op_title = ''Add index by_sku'',
      op_sql = [''CREATE INDEX IF NOT EXISTS '' @ bq ''by_sku'' @ '' ON '' @ bq ''items'' @ '' (''
                @ bq ''sku'' @ '')'']\<rparr>"

definition recreateItems :: "string \<Rightarrow> Operation" where
  "recreateItems columnType =
     \<lparr>op_title = ''Recreate table items'',
      op_sql = [''CREATE TABLE '' @ bq shadowItems @ '' ('' @ [newline]
                @ ''    '' @ bq ''sku'' @ '' '' @ columnType @ [newline] @ '')'',
                ''INSERT INTO '' @ bq shadowItems @ '' SELECT '' @ bq ''sku'' @ '' FROM '' @ bq ''items'',
                ''DROP TABLE '' @ bq ''items'',
                ''ALTER TABLE '' @ bq shadowItems @ '' RENAME TO '' @ bq ''items'']\<rparr>"


definition itemsRetypedSummary :: PushSummary where
  "itemsRetypedSummary =
     \<lparr>addedColumns = [], removedColumns = [], addedTables = [], removedTables = [],
      recreatedTables = [''items''], recreateReasons = [(''items'', ''type of column sku of table items'')]\<rparr>"



definition blogRemovedSummary :: PushSummary where
  "blogRemovedSummary =
     \<lparr>addedColumns = [], removedColumns = [], addedTables = [], removedTables = [''users'', ''posts''],
      recreatedTables = [], recreateReasons = []\<rparr>"

definition itemsTextSnapshot :: Definitions where
  "itemsTextSnapshot = \<lparr>defs_tables = [itemsText]\<rparr>"

definition itemsIntegerSnapshot :: Definitions where
  "itemsIntegerSnapshot = \<lparr>defs_tables = [itemsInteger]\<rparr>"


definition bySkuIndex :: Index where
  "bySkuIndex = \<lparr>idx_name = ''by_sku'', idx_unique = False, idx_columns = [skuText]\<rparr>"

definition bySkuIntegerIndex :: Index where
  "bySkuIntegerIndex = \<lparr>idx_name = ''by_sku'', idx_unique = False, idx_columns = [skuInteger]\<rparr>"

definition postsKey :: ForeignKey where
  "postsKey = singleKey ''users'' userIdColumn idColumn"

text \<open>\<open>posts\<close> with an index on \<open>user_id\<close>, and \<open>posts\<close> without its foreign key.\<close>

definition postsIndexed :: Table where
  "postsIndexed = postsTable\<lparr>tbl_indexes := [\<lparr>idx_name = ''by_user'', idx_unique = False,
                                                idx_columns = [userIdColumn]\<rparr>]\<rparr>"

definition postsUnlinked :: Table where
  "postsUnlinked = plainTable ''posts'' [idColumn, userIdColumn]"

definition blogIndexed :: Definitions where
  "blogIndexed = \<lparr>defs_tables = [usersKeyed, postsIndexed]\<rparr>"

definition blogUnlinked :: Definitions where
  "blogUnlinked = \<lparr>defs_tables = [usersKeyed, postsUnlinked]\<rparr>"

definition removeByUser :: Operation where
  "removeByUser = \<lparr>op_title = ''Remove index by_user'', op_sql = [''DROP INDEX '' @ bq ''by_user'']\<rparr>"

definition shadowPosts :: string where
  "shadowPosts = ''posts__new__0123456789abcdef''"

definition recreatePosts :: Operation where
  "recreatePosts =
     \<lparr>op_title = ''Recreate table posts'',
      op_sql = [''CREATE TABLE '' @ bq shadowPosts @ '' ('' @ [newline]
                @ ''    '' @ bq ''id'' @ '' INTEGER,'' @ [newline]
                @ ''    '' @ bq ''user_id'' @ '' INTEGER'' @ [newline] @ '')'',
                ''INSERT INTO '' @ bq shadowPosts @ '' SELECT '' @ bq ''id'' @ '','' @ bq ''user_id''
                  @ '' FROM '' @ bq ''posts'',
                ''DROP TABLE '' @ bq ''posts'',
                ''ALTER TABLE '' @ bq shadowPosts @ '' RENAME TO '' @ bq ''posts'']\<rparr>"

definition postsUnlinkedSummary :: PushSummary where
  "postsUnlinkedSummary =
     \<lparr>addedColumns = [], removedColumns = [], addedTables = [], removedTables = [],
      recreatedTables = [''posts''], recreateReasons = [(''posts'', ''fks'')]\<rparr>"

section \<open>Auxiliary facts\<close>


lemma mapE_Inr_set: "mapE f xs = Inr ys \<Longrightarrow> y \<in> set ys \<Longrightarrow> \<exists>x \<in> set xs. f x = Inr y"
  by (induction xs arbitrary: ys) (auto split: sum.splits)



lemma differences_Inr:
  "differences nanoid from to options = Inr (s, ops) \<longleftrightarrow>
   (\<exists>tops. differencesTagged nanoid from to options = Inr (s, tops) \<and> ops = map snd tops)"
  by (auto simp: differences_def split: sum.splits)


section \<open>Verification and the primary key\<close>






section \<open>The default-literal encoder\<close>








section \<open>The operations and their tags\<close>

lemma emitOperations_Inr:
  assumes "emitOperations nanoid from to options ws = Inr tops"
  obtains created recreated addedKeys where
    "mapE createTableOperation (ws_tablesToAdd ws) = Inr created"
    "mapE (recreateOperation nanoid from to) (enumerate 0 (tablesToRecreate (ws_recreate ws))) = Inr recreated"
    "(if creationModeOn options then Inr []
      else mapE (addForeignKeyOperation to ws) (allSingleColumnForeignKeys to)) = Inr addedKeys"
    "tops = map removeIndexOperation (ws_indexesToRemove ws)
          @ map removeForeignKeyOperation
              (filter (\<lambda>ofk. fst ofk \<in> set (tablesToDropReferences (ws_recreate ws)))
                      (allSingleColumnForeignKeys from))
          @ created
          @ map removeTableOperation (ws_tablesToDelete ws)
          @ map addColumnOperation (ws_columnsToAdd ws)
          @ map removeColumnOperation (ws_columnsToDelete ws)
          @ recreated @ concat addedKeys
          @ map addIndexOperation (ws_indexesToAdd ws)"
  using assms unfolding emitOperations_def Let_def
  by (auto split: sum.splits)

lemma createTableOperation_kind:
  "createTableOperation t = Inr kop \<Longrightarrow> fst kop = CreateTable (tbl_name t) \<and> op_title (snd kop) = kindTitle (fst kop)"
  by (auto simp: createTableOperation_def split: sum.splits)

lemma recreateOperation_kind:
  "recreateOperation nanoid from to kn = Inr kop \<Longrightarrow>
   fst kop = RecreateTable (snd kn) \<and> op_title (snd kop) = kindTitle (fst kop)"
  by (auto simp: recreateOperation_def split: sum.splits)

lemma addForeignKeyOperation_kind:
  "addForeignKeyOperation to ws ofk = Inr kops \<Longrightarrow> kop \<in> set kops \<Longrightarrow>
   fst kop = AddForeignKey (fst ofk) (col_name (snd (snd ofk))) \<and> op_title (snd kop) = kindTitle (fst kop)"
  by (auto simp: addForeignKeyOperation_def split: sum.splits if_splits prod.splits)

lemma tagged_title:
  assumes "emitOperations nanoid from to options ws = Inr tops" and "kop \<in> set tops"
  shows "op_title (snd kop) = kindTitle (fst kop)"
proof -
  from assms(1) obtain created recreated addedKeys where
    c: "mapE createTableOperation (ws_tablesToAdd ws) = Inr created" and
    r: "mapE (recreateOperation nanoid from to) (enumerate 0 (tablesToRecreate (ws_recreate ws))) = Inr recreated" and
    a: "(if creationModeOn options then Inr []
      else mapE (addForeignKeyOperation to ws) (allSingleColumnForeignKeys to)) = Inr addedKeys" and
    t: "tops = map removeIndexOperation (ws_indexesToRemove ws)
          @ map removeForeignKeyOperation
              (filter (\<lambda>ofk. fst ofk \<in> set (tablesToDropReferences (ws_recreate ws)))
                      (allSingleColumnForeignKeys from))
          @ created
          @ map removeTableOperation (ws_tablesToDelete ws)
          @ map addColumnOperation (ws_columnsToAdd ws)
          @ map removeColumnOperation (ws_columnsToDelete ws)
          @ recreated @ concat addedKeys
          @ map addIndexOperation (ws_indexesToAdd ws)"
    by (rule emitOperations_Inr)
  have c': "kop \<in> set created \<Longrightarrow> ?thesis"
    using mapE_Inr_set[OF c] createTableOperation_kind by blast
  have r': "kop \<in> set recreated \<Longrightarrow> ?thesis"
    using mapE_Inr_set[OF r] recreateOperation_kind by blast
  have a': "kop \<in> set (concat addedKeys) \<Longrightarrow> ?thesis"
  proof -
    assume "kop \<in> set (concat addedKeys)"
    then obtain kops where k: "kops \<in> set addedKeys" "kop \<in> set kops" by auto
    with a have m: "mapE (addForeignKeyOperation to ws) (allSingleColumnForeignKeys to) = Inr addedKeys"
      by (auto split: if_splits)
    from mapE_Inr_set[OF m k(1)] k(2) addForeignKeyOperation_kind show ?thesis by blast
  qed
  from assms(2) t c' r' a' show ?thesis
    by (auto simp: removeIndexOperation_def removeForeignKeyOperation_def removeTableOperation_def
        addColumnOperation_def removeColumnOperation_def addIndexOperation_def split: prod.splits)
qed

lemma differencesTagged_Inr:
  assumes "differencesTagged nanoid from to options = Inr (s, tops)"
  obtains ws where "workingSets from to = Inr ws" "emitOperations nanoid from to options ws = Inr tops"
    "s = summaryOf ws" "\<not> (creationModeOn options \<and> defs_tables from \<noteq> [])"
    "forEachE verify (defs_tables from) = Inr ()" "forEachE verify (defs_tables to) = Inr ()"
  using assms unfolding differencesTagged_def
  by (auto split: sum.splits if_splits)

lemma creationMode_no_key_added:
  assumes "emitOperations nanoid from to options ws = Inr tops" and "creationModeOn options"
    and "kop \<in> set tops"
  shows "fst kop \<noteq> AddForeignKey owner column"
proof -
  from assms(1) obtain created recreated addedKeys where
    c: "mapE createTableOperation (ws_tablesToAdd ws) = Inr created" and
    r: "mapE (recreateOperation nanoid from to) (enumerate 0 (tablesToRecreate (ws_recreate ws))) = Inr recreated" and
    a: "(if creationModeOn options then Inr []
      else mapE (addForeignKeyOperation to ws) (allSingleColumnForeignKeys to)) = Inr addedKeys" and
    t: "tops = map removeIndexOperation (ws_indexesToRemove ws)
          @ map removeForeignKeyOperation
              (filter (\<lambda>ofk. fst ofk \<in> set (tablesToDropReferences (ws_recreate ws)))
                      (allSingleColumnForeignKeys from))
          @ created
          @ map removeTableOperation (ws_tablesToDelete ws)
          @ map addColumnOperation (ws_columnsToAdd ws)
          @ map removeColumnOperation (ws_columnsToDelete ws)
          @ recreated @ concat addedKeys
          @ map addIndexOperation (ws_indexesToAdd ws)"
    by (rule emitOperations_Inr)
  from a assms(2) have e: "addedKeys = []" by simp
  have c': "kop \<in> set created \<Longrightarrow> ?thesis"
    using mapE_Inr_set[OF c] createTableOperation_kind by fastforce
  have r': "kop \<in> set recreated \<Longrightarrow> ?thesis"
    using mapE_Inr_set[OF r] recreateOperation_kind by fastforce
  from assms(3) t e c' r' show ?thesis
    by (auto simp: removeIndexOperation_def removeForeignKeyOperation_def removeTableOperation_def
        addColumnOperation_def removeColumnOperation_def addIndexOperation_def split: prod.splits)
qed

lemma title_not_add_foreign_key:
  "(\<And>owner column. k \<noteq> AddForeignKey owner column) \<Longrightarrow> take 16 (kindTitle k) \<noteq> ''Add foreign key ''"
  by (cases k) auto

text \<open>
  C8. With \<open>creationMode\<close> set and a table in \<open>from\<close>, \<open>differences\<close> raises
  "Creation mode is not supported for existing tables"; the check is the first thing it
  does, so nothing is verified or generated before. When it returns with
  \<open>creationMode\<close> set, \<open>from\<close> is empty and no operation is an "Add foreign key"
  operation.
\<close>

theorem creationMode_guard:
  "(creationModeOn options \<and> defs_tables from \<noteq> [] \<longrightarrow>
      differences nanoid from to options = Inl (Error ''Creation mode is not supported for existing tables''))
   \<and> (creationModeOn options \<and> differences nanoid from to options = Inr (summary, operations) \<longrightarrow>
      defs_tables from = [] \<and> (\<forall>op \<in> set operations. take 16 (op_title op) \<noteq> ''Add foreign key ''))"
proof -
  have guard: "creationModeOn options \<and> defs_tables from \<noteq> [] \<longrightarrow>
      differences nanoid from to options = Inl (Error ''Creation mode is not supported for existing tables'')"
    by (simp add: differences_def differencesTagged_def)
  have skipped: "defs_tables from = [] \<and> (\<forall>op \<in> set operations. take 16 (op_title op) \<noteq> ''Add foreign key '')"
    if a: "creationModeOn options \<and> differences nanoid from to options = Inr (summary, operations)"
  proof -
    from a obtain tops where t: "differencesTagged nanoid from to options = Inr (summary, tops)"
      and o: "operations = map snd tops" by (auto simp: differences_Inr)
    from t obtain ws where e: "emitOperations nanoid from to options ws = Inr tops"
      and g: "\<not> (creationModeOn options \<and> defs_tables from \<noteq> [])"
      by (rule differencesTagged_Inr)
    have "\<forall>op \<in> set operations. take 16 (op_title op) \<noteq> ''Add foreign key ''"
    proof
      fix op assume "op \<in> set operations"
      with o obtain kop where k: "kop \<in> set tops" "op = snd kop" by auto
      have "\<And>owner column. fst kop \<noteq> AddForeignKey owner column"
        using creationMode_no_key_added[OF e _ k(1)] a by blast
      then have "take 16 (kindTitle (fst kop)) \<noteq> ''Add foreign key ''" by (rule title_not_add_foreign_key)
      with tagged_title[OF e k(1)] k(2) show "take 16 (op_title op) \<noteq> ''Add foreign key ''" by simp
    qed
    with g a show ?thesis by simp
  qed
  from guard skipped show ?thesis by blast
qed

theorem creationMode_guard_witness:
  "creationModeOn creationOn \<and> defs_tables blogSnapshot \<noteq> []
   \<and> differences nanoidA blogSnapshot blogSnapshot creationOn
       = Inl (Error ''Creation mode is not supported for existing tables'')
   \<and> differences nanoidA emptySnapshot blogSnapshot creationOn = Inr blogCreated
   \<and> defs_tables emptySnapshot = []
   \<and> list_all (\<lambda>op. take 16 (op_title op) \<noteq> ''Add foreign key '') (snd blogCreated)"
proof -
  have c: "creationModeOn creationOn"
    by code_simp
  have n: "defs_tables blogSnapshot \<noteq> []"
    by code_simp
  have d: "differences nanoidA emptySnapshot blogSnapshot creationOn = Inr (fst blogCreated, snd blogCreated)"
    by code_simp
  from c n d
    creationMode_guard[of creationOn blogSnapshot nanoidA blogSnapshot "fst blogCreated" "snd blogCreated"]
    creationMode_guard[of creationOn emptySnapshot nanoidA blogSnapshot "fst blogCreated" "snd blogCreated"]
  show ?thesis by (simp add: list_all_iff)
qed

section \<open>The recreate protocol\<close>











section \<open>The sets of tables to recreate and of tables that lose their references\<close>

lemma getTableOpt_Some: "getTableOpt d n = Some t \<Longrightarrow> t \<in> set (defs_tables d) \<and> tbl_name t = n"
  by (auto simp: getTableOpt_def find_Some_iff)

lemma getTableOpt_None: "getTableOpt d n = None \<longleftrightarrow> \<not> hasTable d n"
  by (auto simp: getTableOpt_def hasTable_def find_None_iff)

lemma hasTable_getTableOpt: "hasTable d n \<Longrightarrow> \<exists>t. getTableOpt d n = Some t"
  using getTableOpt_None[of d n] by (cases "getTableOpt d n") auto

lemma hasTable_member: "t \<in> set (defs_tables d) \<Longrightarrow> hasTable d (tbl_name t)"
  by (auto simp: hasTable_def)


lemma set_set_add [simp]: "set (set_add x xs) = insert x (set xs)"
  by (auto simp: set_add_def)

lemma set_fold_set_add [simp]: "set (fold set_add ys xs) = set xs \<union> set ys"
  by (induction ys arbitrary: xs) auto

lemma structuralReasons_nonempty:
  "structuralTrigger added fromTable toTable \<Longrightarrow> structuralReasons added fromTable toTable \<noteq> []"
  by (auto simp: structuralTrigger_def structuralReasons_def)

lemma recreateStep_recreate:
  "set (tablesToRecreate (recreateStep to refs added t st))
   = set (tablesToRecreate st) \<union> (if recreateCondition to added t then {tbl_name t} else {})"
  by (auto simp: recreateStep_def recreateCondition_def Let_def structuralReasons_nonempty split: option.splits)

lemma recreateStep_drop:
  "set (tablesToDropReferences (recreateStep to refs added t st))
   = set (tablesToDropReferences st)
     \<union> (if recreateCondition to added t then {tbl_name t} else {})
     \<union> (if cascadeCondition to added t then {n \<in> set (getOrEmpty refs (tbl_name t)). hasTable to n} else {})"
  by (auto simp: recreateStep_def recreateCondition_def cascadeCondition_def Let_def structuralReasons_nonempty
      split: option.splits)

lemma fold_recreateStep_recreate:
  "set (tablesToRecreate (fold (recreateStep to refs added) ts st))
   = set (tablesToRecreate st) \<union> {tbl_name t | t. t \<in> set ts \<and> recreateCondition to added t}"
  by (induction ts arbitrary: st) (auto simp: recreateStep_recreate)

lemma fold_recreateStep_drop:
  "set (tablesToDropReferences (fold (recreateStep to refs added) ts st))
   = set (tablesToDropReferences st)
     \<union> {tbl_name t | t. t \<in> set ts \<and> recreateCondition to added t}
     \<union> {n. \<exists>t \<in> set ts. cascadeCondition to added t \<and> n \<in> set (getOrEmpty refs (tbl_name t)) \<and> hasTable to n}"
  by (induction ts arbitrary: st) (auto simp: recreateStep_drop)

lemma tablesToRecreate_iff:
  "n \<in> set (tablesToRecreate (getTablesToRecreate from to)) \<longleftrightarrow>
   (\<exists>t \<in> set (defs_tables from). tbl_name t = n \<and> recreateCondition to (map fst (getColumnsToAdd from to)) t)"
  by (auto simp: getTablesToRecreate_def fold_recreateStep_recreate)

lemma tablesToDropReferences_iff:
  "n \<in> set (tablesToDropReferences (getTablesToRecreate from to)) \<longleftrightarrow>
   n \<in> set (tablesToRecreate (getTablesToRecreate from to))
   \<or> (\<exists>t \<in> set (defs_tables from). cascadeCondition to (map fst (getColumnsToAdd from to)) t
         \<and> n \<in> set (getOrEmpty (tablesReferences from) (tbl_name t)) \<and> hasTable to n)"
  by (auto simp: getTablesToRecreate_def fold_recreateStep_drop fold_recreateStep_recreate)

lemma getOrEmpty_update:
  "getOrEmpty (AList.update k v g) k' = (if k' = k then v else getOrEmpty g k')"
  by (simp add: getOrEmpty_def update_conv')

lemma inner_references:
  "set (getOrEmpty (fold (\<lambda>fk g. AList.update (fk_foreignTable fk)
                                   (set_add tn (getOrEmpty g (fk_foreignTable fk))) g) fks g) k)
   = set (getOrEmpty g k) \<union> (if \<exists>fk \<in> set fks. fk_foreignTable fk = k then {tn} else {})"
  by (induction fks arbitrary: g) (auto simp: getOrEmpty_update)

lemma outer_references:
  "set (getOrEmpty (fold (\<lambda>table dependencyGraph.
             fold (\<lambda>fk g. AList.update (fk_foreignTable fk)
                                        (set_add (tbl_name table) (getOrEmpty g (fk_foreignTable fk))) g)
                  (tbl_foreignKeys table) dependencyGraph) ts g) k)
   = set (getOrEmpty g k)
     \<union> {tbl_name t | t. t \<in> set ts \<and> (\<exists>fk \<in> set (tbl_foreignKeys t). fk_foreignTable fk = k)}"
  by (induction ts arbitrary: g) (auto simp: inner_references)

lemma tablesReferences_iff:
  "n \<in> set (getOrEmpty (tablesReferences d) k) \<longleftrightarrow>
   (\<exists>t \<in> set (defs_tables d). tbl_name t = n \<and> (\<exists>fk \<in> set (tbl_foreignKeys t). fk_foreignTable fk = k))"
proof -
  have "getOrEmpty [] k = []" by (simp add: getOrEmpty_def)
  then show ?thesis
    unfolding tablesReferences_def outer_references by auto
qed

section \<open>The working sets\<close>

lemma fold_removeAll:
  "fold (\<lambda>v. removeAll (n, v)) cs xs = filter (\<lambda>oc. \<not> (fst oc = n \<and> snd oc \<in> set cs)) xs"
proof (induction cs arbitrary: xs)
  case Nil show ?case by simp
next
  case (Cons c cs)
  have "removeAll (n, c) xs = filter (\<lambda>oc. oc \<noteq> (n, c)) xs"
    by (induction xs) auto
  with Cons show ?case by (auto intro!: filter_cong simp: prod_eq_iff)
qed

lemma set_fold_set_add_pair:
  "set (fold (\<lambda>index. set_add (n, index)) is xs) = set xs \<union> Pair n ` set is"
  by (induction "is" arbitrary: xs) auto

lemma foldRecreatedTable_Inr:
  assumes "foldRecreatedTable from to n ws = Inr ws'"
  obtains tableFrom tableTo where
    "getTableOpt from n = Some tableFrom" "getTableOpt to n = Some tableTo"
    "ws' = ws\<lparr>ws_columnsToDelete :=
                 filter (\<lambda>oc. \<not> (fst oc = n \<and> snd oc \<in> set (tbl_columns tableFrom))) (ws_columnsToDelete ws),
               ws_columnsToAdd :=
                 filter (\<lambda>oc. \<not> (fst oc = n \<and> snd oc \<in> set (tbl_columns tableTo))) (ws_columnsToAdd ws),
               ws_indexesToRemove :=
                 fold (\<lambda>index. set_add (n, index)) (tbl_indexes tableFrom) (ws_indexesToRemove ws),
               ws_indexesToAdd :=
                 fold (\<lambda>index. set_add (n, index)) (tbl_indexes tableTo) (ws_indexesToAdd ws)\<rparr>"
proof -
  from assms obtain tableFrom tableTo where
    f: "getTableOpt from n = Some tableFrom" and t: "getTableOpt to n = Some tableTo"
    by (auto simp: foldRecreatedTable_def split: option.splits)
  from f t have "tbl_name tableFrom = n" "tbl_name tableTo = n" using getTableOpt_Some by blast+
  with assms f t that show ?thesis
    by (auto simp: foldRecreatedTable_def fold_removeAll)
qed

lemma ownedColumn_Nil [simp]: "ownedColumn d [] oc = False"
  by (simp add: ownedColumn_def)

lemma ownedIndexes_Nil [simp]: "ownedIndexes d [] = {}"
  by (simp add: ownedIndexes_def)

lemma foldE_foldRecreatedTable:
  "foldE (foldRecreatedTable from to) ns ws = Inr ws' \<Longrightarrow>
   ws_tablesToDelete ws' = ws_tablesToDelete ws \<and> ws_tablesToAdd ws' = ws_tablesToAdd ws
   \<and> ws_recreate ws' = ws_recreate ws
   \<and> ws_columnsToAdd ws' = filter (\<lambda>oc. \<not> ownedColumn to ns oc) (ws_columnsToAdd ws)
   \<and> ws_columnsToDelete ws' = filter (\<lambda>oc. \<not> ownedColumn from ns oc) (ws_columnsToDelete ws)
   \<and> set (ws_indexesToRemove ws') = set (ws_indexesToRemove ws) \<union> ownedIndexes from ns
   \<and> set (ws_indexesToAdd ws') = set (ws_indexesToAdd ws) \<union> ownedIndexes to ns"
proof (induction ns arbitrary: ws)
  case Nil
  then show ?case by simp
next
  case (Cons n ns)
  from Cons.prems obtain ws1 where s1: "foldRecreatedTable from to n ws = Inr ws1"
    and r: "foldE (foldRecreatedTable from to) ns ws1 = Inr ws'"
    by (auto split: sum.splits)
  from s1 obtain tableFrom tableTo where
    f: "getTableOpt from n = Some tableFrom" and t: "getTableOpt to n = Some tableTo" and
    w: "ws1 = ws\<lparr>ws_columnsToDelete :=
                 filter (\<lambda>oc. \<not> (fst oc = n \<and> snd oc \<in> set (tbl_columns tableFrom))) (ws_columnsToDelete ws),
               ws_columnsToAdd :=
                 filter (\<lambda>oc. \<not> (fst oc = n \<and> snd oc \<in> set (tbl_columns tableTo))) (ws_columnsToAdd ws),
               ws_indexesToRemove :=
                 fold (\<lambda>index. set_add (n, index)) (tbl_indexes tableFrom) (ws_indexesToRemove ws),
               ws_indexesToAdd :=
                 fold (\<lambda>index. set_add (n, index)) (tbl_indexes tableTo) (ws_indexesToAdd ws)\<rparr>"
    by (rule foldRecreatedTable_Inr)
  have oc_from: "ownedColumn from (n # ns) oc \<longleftrightarrow>
      (fst oc = n \<and> snd oc \<in> set (tbl_columns tableFrom)) \<or> ownedColumn from ns oc" for oc
    using f by (auto simp: ownedColumn_def)
  have oc_to: "ownedColumn to (n # ns) oc \<longleftrightarrow>
      (fst oc = n \<and> snd oc \<in> set (tbl_columns tableTo)) \<or> ownedColumn to ns oc" for oc
    using t by (auto simp: ownedColumn_def)
  have oi_from: "ownedIndexes from (n # ns) = Pair n ` set (tbl_indexes tableFrom) \<union> ownedIndexes from ns"
    using f by (auto simp: ownedIndexes_def)
  have oi_to: "ownedIndexes to (n # ns) = Pair n ` set (tbl_indexes tableTo) \<union> ownedIndexes to ns"
    using t by (auto simp: ownedIndexes_def)
  from Cons.IH[OF r] show ?case
    unfolding w oc_from oc_to oi_from oi_to
    by (auto simp: set_fold_set_add_pair intro!: filter_cong)
qed





lemma getColumnsToDelete_member:
  "oc \<in> set (getColumnsToDelete from to) \<Longrightarrow>
   \<exists>t. getTableOpt from (fst oc) = Some t \<and> snd oc \<in> set (tbl_columns t) \<and> hasTable to (fst oc)"
proof -
  assume "oc \<in> set (getColumnsToDelete from to)"
  then have "\<exists>tableTo tableFrom. tableTo \<in> set (defs_tables to)
      \<and> getTableOpt from (tbl_name tableTo) = Some tableFrom
      \<and> oc \<in> Pair (tbl_name tableFrom) ` set (getColumnsToDeleteFromTables tableFrom tableTo)"
    by (auto simp: getColumnsToDelete_def split: option.splits) (metis image_eqI)
  then obtain tableTo tableFrom where tt: "tableTo \<in> set (defs_tables to)"
    and tf: "getTableOpt from (tbl_name tableTo) = Some tableFrom"
    and oc: "oc \<in> Pair (tbl_name tableFrom) ` set (getColumnsToDeleteFromTables tableFrom tableTo)"
    by blast
  from tf have n: "tbl_name tableFrom = tbl_name tableTo" using getTableOpt_Some by blast
  with tt tf oc show ?thesis
    by (auto simp: getColumnsToDeleteFromTables_def hasTable_member)
qed

lemma workingSets_Inr:
  assumes "workingSets from to = Inr ws"
  shows "ws_tablesToDelete ws = getTablesToDelete from to"
    and "ws_tablesToAdd ws = getTablesToAdd from to"
    and "ws_recreate ws = getTablesToRecreate from to"
    and "ws_columnsToAdd ws = []"
    and "ws_columnsToDelete ws
         = filter (\<lambda>oc. fst oc \<notin> set (tablesToRecreate (getTablesToRecreate from to)))
                  (getColumnsToDelete from to)"
    and "set (ws_indexesToRemove ws)
         = set (getIndexesToRemove from to) \<union> ownedIndexes from (tablesToRecreate (getTablesToRecreate from to))"
    and "set (ws_indexesToAdd ws)
         = set (getIndexesToAdd from to) \<union> ownedIndexes to (tablesToRecreate (getTablesToRecreate from to))"
proof -
  note f = foldE_foldRecreatedTable[OF assms[unfolded workingSets_def Let_def]]
  from f show "ws_tablesToDelete ws = getTablesToDelete from to" by simp
  from f show "ws_tablesToAdd ws = getTablesToAdd from to" by simp
  from f show "ws_recreate ws = getTablesToRecreate from to" by simp
  from f show "ws_columnsToAdd ws = []" by simp
  from f show "set (ws_indexesToRemove ws)
         = set (getIndexesToRemove from to) \<union> ownedIndexes from (tablesToRecreate (getTablesToRecreate from to))"
    by simp
  from f show "set (ws_indexesToAdd ws)
         = set (getIndexesToAdd from to) \<union> ownedIndexes to (tablesToRecreate (getTablesToRecreate from to))"
    by simp
  have "filter (\<lambda>oc. \<not> ownedColumn from (tablesToRecreate (getTablesToRecreate from to)) oc)
               (getColumnsToDelete from to)
        = filter (\<lambda>oc. fst oc \<notin> set (tablesToRecreate (getTablesToRecreate from to)))
                 (getColumnsToDelete from to)"
  proof (rule filter_cong)
    fix oc assume "oc \<in> set (getColumnsToDelete from to)"
    then obtain t where "getTableOpt from (fst oc) = Some t" "snd oc \<in> set (tbl_columns t)"
      using getColumnsToDelete_member by blast
    then show "(\<not> ownedColumn from (tablesToRecreate (getTablesToRecreate from to)) oc)
        = (fst oc \<notin> set (tablesToRecreate (getTablesToRecreate from to)))"
      by (simp add: ownedColumn_def)
  qed simp
  with f show "ws_columnsToDelete ws
         = filter (\<lambda>oc. fst oc \<notin> set (tablesToRecreate (getTablesToRecreate from to)))
                  (getColumnsToDelete from to)"
    by simp
qed

section \<open>Verified snapshots always yield a result\<close>

lemma allSingleColumnForeignKeys_iff:
  "(owner, fk, c) \<in> set (allSingleColumnForeignKeys d) \<longleftrightarrow>
   (\<exists>t \<in> set (defs_tables d). owner = tbl_name t \<and> fk \<in> set (tbl_foreignKeys t) \<and> fk_localColumns fk = [c])"
  by (auto simp: allSingleColumnForeignKeys_def singleColumnForeignKeys_def split: list.splits)










section \<open>The tags in the order of emission\<close>

lemma mapE_map_fst:
  "mapE f xs = Inr ys \<Longrightarrow> (\<And>x y. x \<in> set xs \<Longrightarrow> f x = Inr y \<Longrightarrow> fst y = g x) \<Longrightarrow> map fst ys = map g xs"
proof (induction xs arbitrary: ys)
  case Nil then show ?case by simp
next
  case (Cons x xs)
  from Cons.prems(1) obtain y ys' where y: "f x = Inr y" "mapE f xs = Inr ys'" "ys = y # ys'"
    by (auto split: sum.splits)
  from Cons.IH[OF y(2)] Cons.prems(2) y show ?case by simp
qed

lemma mapE_concat_fst:
  "mapE f xs = Inr yss \<Longrightarrow> (\<And>x ys. x \<in> set xs \<Longrightarrow> f x = Inr ys \<Longrightarrow> map fst ys = (if P x then [g x] else []))
   \<Longrightarrow> map fst (concat yss) = map g (filter P xs)"
proof (induction xs arbitrary: yss)
  case Nil then show ?case by simp
next
  case (Cons x xs)
  from Cons.prems(1) obtain ys yss' where y: "f x = Inr ys" "mapE f xs = Inr yss'" "yss = ys # yss'"
    by (auto split: sum.splits)
  have h: "map fst ys = (if P x then [g x] else [])"
    using Cons.prems(2)[of x ys] y(1) by simp
  have "map fst (concat yss') = map g (filter P xs)"
    using Cons.IH[OF y(2)] Cons.prems(2) by simp
  with h y(3) show ?case by simp
qed

lemma addForeignKeyOperation_fst:
  "addForeignKeyOperation to ws ofk = Inr kops \<Longrightarrow>
   map fst kops = (if keyWanted to ws ofk then [AddForeignKey (fst ofk) (col_name (snd (snd ofk)))] else [])"
  by (auto simp: addForeignKeyOperation_def keyWanted_def getTable_def
      split: sum.splits if_splits prod.splits option.splits)

lemma emitOperations_kinds:
  assumes "emitOperations nanoid from to options ws = Inr tops"
  shows "map fst tops = plannedKinds from to options ws"
proof -
  from assms obtain created recreated addedKeys where
    c: "mapE createTableOperation (ws_tablesToAdd ws) = Inr created" and
    r: "mapE (recreateOperation nanoid from to) (enumerate 0 (tablesToRecreate (ws_recreate ws))) = Inr recreated" and
    a: "(if creationModeOn options then Inr []
      else mapE (addForeignKeyOperation to ws) (allSingleColumnForeignKeys to)) = Inr addedKeys" and
    t: "tops = map removeIndexOperation (ws_indexesToRemove ws)
          @ map removeForeignKeyOperation
              (filter (\<lambda>ofk. fst ofk \<in> set (tablesToDropReferences (ws_recreate ws)))
                      (allSingleColumnForeignKeys from))
          @ created
          @ map removeTableOperation (ws_tablesToDelete ws)
          @ map addColumnOperation (ws_columnsToAdd ws)
          @ map removeColumnOperation (ws_columnsToDelete ws)
          @ recreated @ concat addedKeys
          @ map addIndexOperation (ws_indexesToAdd ws)"
    by (rule emitOperations_Inr)
  have c': "map fst created = map (\<lambda>t. CreateTable (tbl_name t)) (ws_tablesToAdd ws)"
    using c by (rule mapE_map_fst) (simp add: createTableOperation_kind)
  have "map fst recreated = map (\<lambda>kn. RecreateTable (snd kn)) (enumerate 0 (tablesToRecreate (ws_recreate ws)))"
    using r by (rule mapE_map_fst) (simp add: recreateOperation_kind)
  then have r': "map fst recreated = map RecreateTable (tablesToRecreate (ws_recreate ws))"
    by (simp add: map_snd_enumerate flip: map_map[unfolded comp_def])
  have a': "map fst (concat addedKeys) =
      (if creationModeOn options then []
       else map (\<lambda>ofk. AddForeignKey (fst ofk) (col_name (snd (snd ofk))))
                (filter (keyWanted to ws) (allSingleColumnForeignKeys to)))"
  proof (cases "creationModeOn options")
    case True with a show ?thesis by auto
  next
    case False
    with a have m: "mapE (addForeignKeyOperation to ws) (allSingleColumnForeignKeys to) = Inr addedKeys" by simp
    from m have "map fst (concat addedKeys) = map (\<lambda>ofk. AddForeignKey (fst ofk) (col_name (snd (snd ofk))))
                (filter (keyWanted to ws) (allSingleColumnForeignKeys to))"
      by (rule mapE_concat_fst) (rule addForeignKeyOperation_fst)
    with False show ?thesis by simp
  qed
  show ?thesis
    unfolding t plannedKinds_def
    by (simp add: c' r' a' removeIndexOperation_def removeForeignKeyOperation_def removeTableOperation_def
        addColumnOperation_def removeColumnOperation_def addIndexOperation_def comp_def split: prod.splits)
qed

section \<open>New columns\<close>

lemma differencesTagged_kinds:
  assumes "differencesTagged nanoid from to options = Inr (summary, tops)"
  obtains ws where "workingSets from to = Inr ws" "summary = summaryOf ws"
    "map fst tops = plannedKinds from to options ws"
    "emitOperations nanoid from to options ws = Inr tops"
proof -
  from assms obtain ws where w: "workingSets from to = Inr ws"
    and e: "emitOperations nanoid from to options ws = Inr tops" and s: "summary = summaryOf ws"
    by (rule differencesTagged_Inr)
  from w s emitOperations_kinds[OF e] e that show ?thesis by blast
qed

lemma title_not_add_column:
  "(\<And>owner column. k \<noteq> AddColumn owner column) \<Longrightarrow> take 11 (kindTitle k) \<noteq> ''Add column ''"
  by (cases k) auto

lemma plannedKinds_no_add_column:
  "ws_columnsToAdd ws = [] \<Longrightarrow> k \<in> set (plannedKinds from to options ws) \<Longrightarrow> k \<noteq> AddColumn owner column"
  by (auto simp: plannedKinds_def split: if_splits)

lemma getColumnsToAdd_member:
  "tableTo \<in> set (defs_tables to) \<Longrightarrow> getTableOpt from (tbl_name tableTo) = Some tableFrom \<Longrightarrow>
   c \<in> set (tbl_columns tableTo) \<Longrightarrow> \<not> hasColumn tableFrom (col_name c) \<Longrightarrow>
   tbl_name tableTo \<in> set (map fst (getColumnsToAdd from to))"
  by (force simp: getColumnsToAdd_def getColumnsToAddFromTables_def)

lemma recreateCondition_structural:
  "hasTable to (tbl_name t) \<Longrightarrow> tbl_name t \<in> set added \<Longrightarrow> recreateCondition to added t"
  using hasTable_getTableOpt[of to "tbl_name t"]
  by (auto simp: recreateCondition_def structuralTrigger_def)

text \<open>
  C5. When \<open>differences\<close> returns, the summary's \<open>addedColumns\<close> is empty and no
  operation is an "Add column" operation. A table of \<open>to\<close> that has a column which
  the table of the same name in \<open>from\<close> lacks is in the summary's
  \<open>recreatedTables\<close>, and a "Recreate table" operation for it is in the result.
\<close>

theorem no_incremental_add_column:
  assumes "differences nanoid from to options = Inr (summary, operations)"
  shows "addedColumns summary = []
     \<and> (\<forall>op \<in> set operations. take 11 (op_title op) \<noteq> ''Add column '')
     \<and> (\<forall>tableTo \<in> set (defs_tables to). \<forall>tableFrom.
          getTableOpt from (tbl_name tableTo) = Some tableFrom
          \<and> (\<exists>c \<in> set (tbl_columns tableTo). \<not> hasColumn tableFrom (col_name c))
          \<longrightarrow> tbl_name tableTo \<in> set (recreatedTables summary)
              \<and> (\<exists>op \<in> set operations. op_title op = ''Recreate table '' @ tbl_name tableTo))"
proof -
  from assms obtain tops where t: "differencesTagged nanoid from to options = Inr (summary, tops)"
    and o: "operations = map snd tops" by (auto simp: differences_Inr)
  from t obtain ws where w: "workingSets from to = Inr ws" and s: "summary = summaryOf ws"
    and k: "map fst tops = plannedKinds from to options ws"
    and e: "emitOperations nanoid from to options ws = Inr tops"
    by (rule differencesTagged_kinds)
  note ws = workingSets_Inr[OF w]
  have a: "addedColumns summary = []"
    by (simp add: s summaryOf_def ws(4))
  have b: "\<forall>op \<in> set operations. take 11 (op_title op) \<noteq> ''Add column ''"
  proof
    fix op assume "op \<in> set operations"
    with o obtain kop where kop: "kop \<in> set tops" "op = snd kop" by auto
    then have "fst kop \<in> set (plannedKinds from to options ws)" using k by (metis image_eqI set_map)
    then have "\<And>owner column. fst kop \<noteq> AddColumn owner column"
      using plannedKinds_no_add_column[OF ws(4)] by blast
    then have "take 11 (kindTitle (fst kop)) \<noteq> ''Add column ''" by (rule title_not_add_column)
    with tagged_title[OF e kop(1)] kop(2) show "take 11 (op_title op) \<noteq> ''Add column ''" by simp
  qed
  have c: "tbl_name tableTo \<in> set (recreatedTables summary)
              \<and> (\<exists>op \<in> set operations. op_title op = ''Recreate table '' @ tbl_name tableTo)"
    if tt: "tableTo \<in> set (defs_tables to)" and tf: "getTableOpt from (tbl_name tableTo) = Some tableFrom"
      and nc: "\<exists>c \<in> set (tbl_columns tableTo). \<not> hasColumn tableFrom (col_name c)" for tableTo tableFrom
  proof -
    from tt tf nc have "tbl_name tableTo \<in> set (map fst (getColumnsToAdd from to))"
      using getColumnsToAdd_member by blast
    moreover from tf have f: "tableFrom \<in> set (defs_tables from)" "tbl_name tableFrom = tbl_name tableTo"
      using getTableOpt_Some by blast+
    moreover from tt have "hasTable to (tbl_name tableTo)" by (rule hasTable_member)
    ultimately have "recreateCondition to (map fst (getColumnsToAdd from to)) tableFrom"
      using recreateCondition_structural by metis
    with f have r: "tbl_name tableTo \<in> set (tablesToRecreate (getTablesToRecreate from to))"
      by (auto simp: tablesToRecreate_iff)
    then have "RecreateTable (tbl_name tableTo) \<in> set (map fst tops)"
      by (simp add: k plannedKinds_def ws(3))
    then obtain kop where kop: "kop \<in> set tops" "fst kop = RecreateTable (tbl_name tableTo)" by auto
    with tagged_title[OF e kop(1)] have "op_title (snd kop) = ''Recreate table '' @ tbl_name tableTo" by simp
    with kop(1) o have "\<exists>op \<in> set operations. op_title op = ''Recreate table '' @ tbl_name tableTo" by force
    with r show ?thesis by (simp add: s summaryOf_def ws(3))
  qed
  from a b c show ?thesis by blast
qed

theorem no_incremental_add_column_witness:
  "differences nanoidA blogSnapshot blogWithEmail None
     = Inr (usersRebuiltSummary, [dropPostsKey, recreateUsers, addPostsKey])
   \<and> usersWithEmail \<in> set (defs_tables blogWithEmail)
   \<and> getTableOpt blogSnapshot (tbl_name usersWithEmail) = Some usersKeyed
   \<and> emailColumn \<in> set (tbl_columns usersWithEmail) \<and> \<not> hasColumn usersKeyed (col_name emailColumn)
   \<and> addedColumns usersRebuiltSummary = []
   \<and> list_all (\<lambda>op. take 11 (op_title op) \<noteq> ''Add column '') [dropPostsKey, recreateUsers, addPostsKey]
   \<and> tbl_name usersWithEmail \<in> set (recreatedTables usersRebuiltSummary)
   \<and> (\<exists>op \<in> set [dropPostsKey, recreateUsers, addPostsKey].
         op_title op = ''Recreate table '' @ tbl_name usersWithEmail)"
proof -
  have d: "differences nanoidA blogSnapshot blogWithEmail None
     = Inr (usersRebuiltSummary, [dropPostsKey, recreateUsers, addPostsKey])" by code_simp
  have m: "usersWithEmail \<in> set (defs_tables blogWithEmail)" by code_simp
  have g: "getTableOpt blogSnapshot (tbl_name usersWithEmail) = Some usersKeyed" by code_simp
  have c: "emailColumn \<in> set (tbl_columns usersWithEmail)" by code_simp
  have h: "\<not> hasColumn usersKeyed (col_name emailColumn)" by code_simp
  from d m g c h no_incremental_add_column[OF d]
  show ?thesis unfolding list_all_iff by blast
qed

section \<open>Recreated tables\<close>

text \<open>
  C4, as amended. For a table \<open>T\<close> scheduled for recreation, no operation adds a
  column to \<open>T\<close> or removes one from it. Its indexes are not folded into the rebuild:
  a "Remove index" operation is emitted for every index \<open>T\<close> has in \<open>from\<close> and an
  "Add index" operation for every index \<open>T\<close> has in \<open>to\<close>.
\<close>

theorem recreated_table_bookkeeping:
  assumes "differencesTagged nanoid from to options = Inr (summary, tops)"
    and "T \<in> set (recreatedTables summary)"
  shows "(\<forall>c. AddColumn T c \<notin> set (map fst tops) \<and> RemoveColumn T c \<notin> set (map fst tops))
     \<and> (\<forall>tableFrom index. getTableOpt from T = Some tableFrom \<and> index \<in> set (tbl_indexes tableFrom)
          \<longrightarrow> removeIndexOperation (T, index) \<in> set tops)
     \<and> (\<forall>tableTo index. getTableOpt to T = Some tableTo \<and> index \<in> set (tbl_indexes tableTo)
          \<longrightarrow> addIndexOperation (T, index) \<in> set tops)"
proof -
  from assms(1) obtain ws where w: "workingSets from to = Inr ws" and s: "summary = summaryOf ws"
    and k: "map fst tops = plannedKinds from to options ws"
    and e: "emitOperations nanoid from to options ws = Inr tops"
    by (rule differencesTagged_kinds)
  note ws = workingSets_Inr[OF w]
  from assms(2) have r: "T \<in> set (tablesToRecreate (getTablesToRecreate from to))"
    by (simp add: s summaryOf_def ws(3))
  have columns: "AddColumn T c \<notin> set (map fst tops) \<and> RemoveColumn T c \<notin> set (map fst tops)" for c
    using r unfolding k plannedKinds_def ws(4) ws(5)
    by (auto split: if_splits)
  from e obtain created recreated addedKeys where
    tops: "tops = map removeIndexOperation (ws_indexesToRemove ws)
          @ map removeForeignKeyOperation
              (filter (\<lambda>ofk. fst ofk \<in> set (tablesToDropReferences (ws_recreate ws)))
                      (allSingleColumnForeignKeys from))
          @ created
          @ map removeTableOperation (ws_tablesToDelete ws)
          @ map addColumnOperation (ws_columnsToAdd ws)
          @ map removeColumnOperation (ws_columnsToDelete ws)
          @ recreated @ concat addedKeys
          @ map addIndexOperation (ws_indexesToAdd ws)"
    by (rule emitOperations_Inr)
  have removed: "removeIndexOperation (T, index) \<in> set tops"
    if "getTableOpt from T = Some tableFrom \<and> index \<in> set (tbl_indexes tableFrom)" for tableFrom index
  proof -
    from that r have "(T, index) \<in> ownedIndexes from (tablesToRecreate (getTablesToRecreate from to))"
      by (auto simp: ownedIndexes_def)
    then have "(T, index) \<in> set (ws_indexesToRemove ws)" by (simp add: ws(6))
    then show ?thesis unfolding tops by simp
  qed
  have added: "addIndexOperation (T, index) \<in> set tops"
    if "getTableOpt to T = Some tableTo \<and> index \<in> set (tbl_indexes tableTo)" for tableTo index
  proof -
    from that r have "(T, index) \<in> ownedIndexes to (tablesToRecreate (getTablesToRecreate from to))"
      by (auto simp: ownedIndexes_def)
    then have "(T, index) \<in> set (ws_indexesToAdd ws)" by (simp add: ws(7))
    then show ?thesis unfolding tops by simp
  qed
  from columns removed added show ?thesis by blast
qed

theorem recreated_table_bookkeeping_counterexample:
  "differences nanoidA itemsTextSnapshot itemsIntegerSnapshot None
     = Inr (itemsRetypedSummary, [removeBySku, recreateItems ''INTEGER'', addBySku])
   \<and> recreatedTables itemsRetypedSummary = [''items'']
   \<and> bySkuIndex \<in> set (tbl_indexes itemsText) \<and> bySkuIntegerIndex \<in> set (tbl_indexes itemsInteger)
   \<and> snd (removeIndexOperation (''items'', bySkuIndex)) = removeBySku
   \<and> snd (addIndexOperation (''items'', bySkuIntegerIndex)) = addBySku"
  by code_simp

theorem recreated_table_bookkeeping_witness:
  "differencesTagged nanoidA itemsTextSnapshot itemsIntegerSnapshot None
     = Inr (itemsRetypedSummary,
            [(RemoveIndex ''items'' ''by_sku'', removeBySku),
             (RecreateTable ''items'', recreateItems ''INTEGER''),
             (AddIndex ''items'' ''by_sku'', addBySku)])
   \<and> ''items'' \<in> set (recreatedTables itemsRetypedSummary)
   \<and> getTableOpt itemsTextSnapshot ''items'' = Some itemsText \<and> bySkuIndex \<in> set (tbl_indexes itemsText)
   \<and> getTableOpt itemsIntegerSnapshot ''items'' = Some itemsInteger
   \<and> bySkuIntegerIndex \<in> set (tbl_indexes itemsInteger)
   \<and> removeIndexOperation (''items'', bySkuIndex)
       \<in> set [(RemoveIndex ''items'' ''by_sku'', removeBySku),
               (RecreateTable ''items'', recreateItems ''INTEGER''),
               (AddIndex ''items'' ''by_sku'', addBySku)]
   \<and> addIndexOperation (''items'', bySkuIntegerIndex)
       \<in> set [(RemoveIndex ''items'' ''by_sku'', removeBySku),
               (RecreateTable ''items'', recreateItems ''INTEGER''),
               (AddIndex ''items'' ''by_sku'', addBySku)]"
proof -
  have d: "differencesTagged nanoidA itemsTextSnapshot itemsIntegerSnapshot None
     = Inr (itemsRetypedSummary,
            [(RemoveIndex ''items'' ''by_sku'', removeBySku),
             (RecreateTable ''items'', recreateItems ''INTEGER''),
             (AddIndex ''items'' ''by_sku'', addBySku)])" by code_simp
  have r: "''items'' \<in> set (recreatedTables itemsRetypedSummary)" by code_simp
  have f: "getTableOpt itemsTextSnapshot ''items'' = Some itemsText \<and> bySkuIndex \<in> set (tbl_indexes itemsText)"
    by code_simp
  have t: "getTableOpt itemsIntegerSnapshot ''items'' = Some itemsInteger
      \<and> bySkuIntegerIndex \<in> set (tbl_indexes itemsInteger)" by code_simp
  from d r f t recreated_table_bookkeeping[OF d r]
  show ?thesis by blast
qed

section \<open>Removed tables\<close>

lemma set_update_values: "set (map snd (AList.update k v al)) \<subseteq> insert v (set (map snd al))"
  by (induction al) auto

lemma indexesByName_values: "set (map snd (indexesByName d)) \<subseteq> set (allIndexes d)"
proof -
  have "set (map snd (fold (\<lambda>oi m. AList.update (idx_name (snd oi)) oi m) xs m)) \<subseteq> set (map snd m) \<union> set xs"
    for xs and m :: "(string \<times> (string \<times> Index)) list"
  proof (induction xs arbitrary: m)
    case Nil show ?case by simp
  next
    case (Cons x xs)
    have "set (map snd (AList.update (idx_name (snd x)) x m)) \<subseteq> insert x (set (map snd m))"
      by (rule set_update_values)
    with Cons[of "AList.update (idx_name (snd x)) x m"] show ?case by auto
  qed
  from this[of "allIndexes d" "[]"] show ?thesis by (simp add: indexesByName_def)
qed


lemma getIndexesToRemove_subset: "set (getIndexesToRemove from to) \<subseteq> set (allIndexes from)"
  using indexesByName_values[of "from"] by (auto simp: getIndexesToRemove_def Let_def)









section \<open>References dropped ahead of a rebuild\<close>

lemma early_titles:
  "take 13 (''Remove index '' @ x) \<noteq> ''Create table ''"
  "take 13 (''Remove index '' @ x) \<noteq> ''Remove table ''"
  "take 15 (''Remove index '' @ x) \<noteq> ''Recreate table ''"
  "take 13 (''Remove foreign key '' @ y) \<noteq> ''Create table ''"
  "take 13 (''Remove foreign key '' @ y) \<noteq> ''Remove table ''"
  "take 15 (''Remove foreign key '' @ y) \<noteq> ''Recreate table ''"
  by simp_all

lemma dropped_by_cascade:
  assumes "tableT \<in> set (defs_tables from)" "fk \<in> set (tbl_foreignKeys tableT)"
    and "hasTable to (tbl_name tableT)"
    and "tableR \<in> set (defs_tables from)" "tbl_name tableR = fk_foreignTable fk"
    and "getTableOpt to (tbl_name tableR) = Some toR"
    and "structuralTrigger (map fst (getColumnsToAdd from to)) tableR toR"
  shows "tbl_name tableT \<in> set (tablesToDropReferences (getTablesToRecreate from to))"
proof -
  have "cascadeCondition to (map fst (getColumnsToAdd from to)) tableR"
    using assms(6,7) by (simp add: cascadeCondition_def)
  moreover have "tbl_name tableT \<in> set (getOrEmpty (tablesReferences from) (tbl_name tableR))"
    using assms(1,2,5) by (auto simp: tablesReferences_iff)
  ultimately show ?thesis
    using assms(3,4) by (auto simp: tablesToDropReferences_iff)
qed

text \<open>
  C3, as amended. Let \<open>T\<close> be a table of \<open>from\<close> with a single-column foreign key on
  column \<open>c\<close>. If \<open>T\<close> is also in \<open>to\<close> and the key's target is a table of
  \<open>from\<close> and of \<open>to\<close> for which a structural trigger fires (primary key, uniques,
  foreign keys, a unique index, a new column), or if \<open>T\<close> is itself scheduled for
  recreation, then \<open>differences\<close> emits the operation that redefines \<open>c\<close> without
  its reference clause, and no create-table, remove-table or recreate operation comes
  before it.
\<close>

theorem references_dropped_before_rebuild:
  assumes "differences nanoid from to options = Inr (summary, operations)"
    and "tableT \<in> set (defs_tables from)" and "fk \<in> set (tbl_foreignKeys tableT)"
    and "fk_localColumns fk = [c]"
    and "(hasTable to (tbl_name tableT)
          \<and> (\<exists>tableR \<in> set (defs_tables from). \<exists>toR.
                tbl_name tableR = fk_foreignTable fk \<and> getTableOpt to (tbl_name tableR) = Some toR
                \<and> structuralTrigger (map fst (getColumnsToAdd from to)) tableR toR))
         \<or> tbl_name tableT \<in> set (recreatedTables summary)"
  shows "\<exists>pre post.
           operations = pre @ \<lparr>op_title = ''Remove foreign key '' @ col_name c @ '' from table '' @ tbl_name tableT,
                               op_sql = removeForeignKeyFromColumnSQL (tbl_name tableT) c\<rparr> # post
           \<and> (\<forall>op \<in> set pre. take 13 (op_title op) \<noteq> ''Create table ''
                 \<and> take 13 (op_title op) \<noteq> ''Remove table ''
                 \<and> take 15 (op_title op) \<noteq> ''Recreate table '')"
proof -
  from assms(1) obtain tops where t: "differencesTagged nanoid from to options = Inr (summary, tops)"
    and o: "operations = map snd tops" by (auto simp: differences_Inr)
  from t obtain ws where w: "workingSets from to = Inr ws" and s: "summary = summaryOf ws"
    and e: "emitOperations nanoid from to options ws = Inr tops"
    by (rule differencesTagged_kinds)
  note ws = workingSets_Inr[OF w]
  have dropped: "tbl_name tableT \<in> set (tablesToDropReferences (getTablesToRecreate from to))"
    using assms(5)
  proof
    assume "hasTable to (tbl_name tableT)
          \<and> (\<exists>tableR \<in> set (defs_tables from). \<exists>toR.
                tbl_name tableR = fk_foreignTable fk \<and> getTableOpt to (tbl_name tableR) = Some toR
                \<and> structuralTrigger (map fst (getColumnsToAdd from to)) tableR toR)"
    with assms(2,3) show ?thesis using dropped_by_cascade by blast
  next
    assume "tbl_name tableT \<in> set (recreatedTables summary)"
    then show ?thesis by (simp add: s summaryOf_def ws(3) tablesToDropReferences_iff)
  qed
  define wanted where "wanted = filter (\<lambda>ofk. fst ofk \<in> set (tablesToDropReferences (ws_recreate ws)))
                      (allSingleColumnForeignKeys from)"
  have "(tbl_name tableT, fk, c) \<in> set (allSingleColumnForeignKeys from)"
    using assms(2,3,4) by (auto simp: allSingleColumnForeignKeys_iff)
  with dropped have "(tbl_name tableT, fk, c) \<in> set wanted"
    by (simp add: wanted_def ws(3))
  then obtain before after where split: "wanted = before @ (tbl_name tableT, fk, c) # after"
    by (meson split_list)
  from e obtain created recreated addedKeys where
    tops: "tops = map removeIndexOperation (ws_indexesToRemove ws)
          @ map removeForeignKeyOperation wanted
          @ created
          @ map removeTableOperation (ws_tablesToDelete ws)
          @ map addColumnOperation (ws_columnsToAdd ws)
          @ map removeColumnOperation (ws_columnsToDelete ws)
          @ recreated @ concat addedKeys
          @ map addIndexOperation (ws_indexesToAdd ws)"
    unfolding wanted_def by (rule emitOperations_Inr)
  define pre where "pre = map snd (map removeIndexOperation (ws_indexesToRemove ws)
                                   @ map removeForeignKeyOperation before)"
  define post where "post = map snd (map removeForeignKeyOperation after
          @ created
          @ map removeTableOperation (ws_tablesToDelete ws)
          @ map addColumnOperation (ws_columnsToAdd ws)
          @ map removeColumnOperation (ws_columnsToDelete ws)
          @ recreated @ concat addedKeys
          @ map addIndexOperation (ws_indexesToAdd ws))"
  have "operations = pre @ snd (removeForeignKeyOperation (tbl_name tableT, fk, c)) # post"
    by (simp add: o tops split pre_def post_def)
  then have shape: "operations = pre @ \<lparr>op_title = ''Remove foreign key '' @ col_name c @ '' from table '' @ tbl_name tableT,
                               op_sql = removeForeignKeyFromColumnSQL (tbl_name tableT) c\<rparr> # post"
    by (simp add: removeForeignKeyOperation_def)
  have early: "take 13 (op_title op) \<noteq> ''Create table ''
                 \<and> take 13 (op_title op) \<noteq> ''Remove table ''
                 \<and> take 15 (op_title op) \<noteq> ''Recreate table ''" if "op \<in> set pre" for op
  proof -
    from that have "(\<exists>x. op_title op = ''Remove index '' @ x) \<or> (\<exists>y. op_title op = ''Remove foreign key '' @ y)"
      by (auto simp: pre_def removeIndexOperation_def removeForeignKeyOperation_def split: prod.splits)
    then show ?thesis using early_titles by metis
  qed
  from shape early show ?thesis by blast
qed

theorem references_dropped_before_rebuild_counterexample:
  "postsKey \<in> set (tbl_foreignKeys postsTable) \<and> fk_foreignTable postsKey = tbl_name usersKeyed
   \<and> differences nanoidA blogSnapshot emptySnapshot None
       = Inr (blogRemovedSummary,
              [\<lparr>op_title = ''Remove table users'', op_sql = [''DROP TABLE '' @ bq ''users'']\<rparr>,
               \<lparr>op_title = ''Remove table posts'', op_sql = [''DROP TABLE '' @ bq ''posts'']\<rparr>])"
  by code_simp

theorem references_dropped_before_rebuild_witness:
  "differences nanoidA blogIndexed blogWithEmail None
     = Inr (usersRebuiltSummary, [removeByUser, dropPostsKey, recreateUsers, addPostsKey])
   \<and> postsIndexed \<in> set (defs_tables blogIndexed) \<and> postsKey \<in> set (tbl_foreignKeys postsIndexed)
   \<and> fk_localColumns postsKey = [userIdColumn]
   \<and> hasTable blogWithEmail (tbl_name postsIndexed)
   \<and> usersKeyed \<in> set (defs_tables blogIndexed) \<and> tbl_name usersKeyed = fk_foreignTable postsKey
   \<and> getTableOpt blogWithEmail (tbl_name usersKeyed) = Some usersWithEmail
   \<and> structuralTrigger (map fst (getColumnsToAdd blogIndexed blogWithEmail)) usersKeyed usersWithEmail
   \<and> [removeByUser, dropPostsKey, recreateUsers, addPostsKey]
       = [removeByUser]
         @ \<lparr>op_title = ''Remove foreign key '' @ col_name userIdColumn @ '' from table '' @ tbl_name postsIndexed,
             op_sql = removeForeignKeyFromColumnSQL (tbl_name postsIndexed) userIdColumn\<rparr>
         # [recreateUsers, addPostsKey]
   \<and> (\<exists>pre post.
         [removeByUser, dropPostsKey, recreateUsers, addPostsKey]
           = pre @ \<lparr>op_title = ''Remove foreign key '' @ col_name userIdColumn @ '' from table '' @ tbl_name postsIndexed,
                     op_sql = removeForeignKeyFromColumnSQL (tbl_name postsIndexed) userIdColumn\<rparr> # post
         \<and> (\<forall>op \<in> set pre. take 13 (op_title op) \<noteq> ''Create table ''
               \<and> take 13 (op_title op) \<noteq> ''Remove table ''
               \<and> take 15 (op_title op) \<noteq> ''Recreate table ''))
   \<and> differences nanoidA blogSnapshot blogUnlinked None
       = Inr (postsUnlinkedSummary, [dropPostsKey, recreatePosts])
   \<and> postsTable \<in> set (defs_tables blogSnapshot) \<and> postsKey \<in> set (tbl_foreignKeys postsTable)
   \<and> tbl_name postsTable \<in> set (recreatedTables postsUnlinkedSummary)
   \<and> (\<exists>pre post.
         [dropPostsKey, recreatePosts]
           = pre @ \<lparr>op_title = ''Remove foreign key '' @ col_name userIdColumn @ '' from table '' @ tbl_name postsTable,
                     op_sql = removeForeignKeyFromColumnSQL (tbl_name postsTable) userIdColumn\<rparr> # post
         \<and> (\<forall>op \<in> set pre. take 13 (op_title op) \<noteq> ''Create table ''
               \<and> take 13 (op_title op) \<noteq> ''Remove table ''
               \<and> take 15 (op_title op) \<noteq> ''Recreate table ''))"
proof -
  have d: "differences nanoidA blogIndexed blogWithEmail None
     = Inr (usersRebuiltSummary, [removeByUser, dropPostsKey, recreateUsers, addPostsKey])" by code_simp
  have m: "postsIndexed \<in> set (defs_tables blogIndexed)" by code_simp
  have k: "postsKey \<in> set (tbl_foreignKeys postsIndexed)" by code_simp
  have l: "fk_localColumns postsKey = [userIdColumn]" by code_simp
  have h: "hasTable blogWithEmail (tbl_name postsIndexed)" by code_simp
  have r: "usersKeyed \<in> set (defs_tables blogIndexed)" by code_simp
  have n: "tbl_name usersKeyed = fk_foreignTable postsKey" by code_simp
  have g: "getTableOpt blogWithEmail (tbl_name usersKeyed) = Some usersWithEmail" by code_simp
  have s: "structuralTrigger (map fst (getColumnsToAdd blogIndexed blogWithEmail)) usersKeyed usersWithEmail"
    by code_simp
  have p: "[removeByUser, dropPostsKey, recreateUsers, addPostsKey]
       = [removeByUser]
         @ \<lparr>op_title = ''Remove foreign key '' @ col_name userIdColumn @ '' from table '' @ tbl_name postsIndexed,
             op_sql = removeForeignKeyFromColumnSQL (tbl_name postsIndexed) userIdColumn\<rparr>
         # [recreateUsers, addPostsKey]" by code_simp
  have t: "(hasTable blogWithEmail (tbl_name postsIndexed)
          \<and> (\<exists>tableR \<in> set (defs_tables blogIndexed). \<exists>toR.
                tbl_name tableR = fk_foreignTable postsKey \<and> getTableOpt blogWithEmail (tbl_name tableR) = Some toR
                \<and> structuralTrigger (map fst (getColumnsToAdd blogIndexed blogWithEmail)) tableR toR))
         \<or> tbl_name postsIndexed \<in> set (recreatedTables usersRebuiltSummary)"
    using h r n g s by blast
  have d2: "differences nanoidA blogSnapshot blogUnlinked None
       = Inr (postsUnlinkedSummary, [dropPostsKey, recreatePosts])" by code_simp
  have m2: "postsTable \<in> set (defs_tables blogSnapshot)" by code_simp
  have k2: "postsKey \<in> set (tbl_foreignKeys postsTable)" by code_simp
  have r2: "tbl_name postsTable \<in> set (recreatedTables postsUnlinkedSummary)" by code_simp
  have t2: "(hasTable blogUnlinked (tbl_name postsTable)
          \<and> (\<exists>tableR \<in> set (defs_tables blogSnapshot). \<exists>toR.
                tbl_name tableR = fk_foreignTable postsKey \<and> getTableOpt blogUnlinked (tbl_name tableR) = Some toR
                \<and> structuralTrigger (map fst (getColumnsToAdd blogSnapshot blogUnlinked)) tableR toR))
         \<or> tbl_name postsTable \<in> set (recreatedTables postsUnlinkedSummary)"
    using r2 by blast
  from d m k l h r n g s p d2 m2 k2 r2
    references_dropped_before_rebuild[OF d m k l t]
    references_dropped_before_rebuild[OF d2 m2 k2 l t2]
  show ?thesis by blast
qed

section \<open>The diff of a snapshot with itself\<close>

















section \<open>Two runs on the same input\<close>













end
